theory Spec2Isabelle
  imports Main
begin

section \<open>Data model (the SQLAlchemy models of app.py)\<close>

text \<open>
  Each \<^verbatim>\<open>db.Model\<close> class is a record holding the columns the workflow reads or
  writes; a table is the list of its rows in insertion (rowid) order. The free-text status
  and action columns are datatypes whose constructors are the string values the code
  assigns. Clock readings (\<^verbatim>\<open>datetime.utcnow()\<close>) are natural numbers handed to each
  operation by its caller. \<^verbatim>\<open>Project.updated_at\<close> is declared with
  \<^verbatim>\<open>onupdate=datetime.utcnow\<close>: every route that changes a column of a project row
  also sets its \<open>updated_at\<close> to the clock reading.
\<close>

datatype project_status = P_In_Progress | P_Completed | P_Cancelled

datatype step_status = Pending | In_Progress | Completed | Sent_Back

datatype action_kind = Create | Edit | Delete | Forward | Send_Back | Complete | Upload

record user =
  u_id :: nat
  username :: string
  is_active :: bool

record project =
  p_id :: nat
  project_name :: string
  description :: string
  owner_id :: nat
  p_status :: project_status
  current_step_number :: "int option"
  updated_at :: nat

record project_step =
  s_id :: nat
  s_project_id :: nat
  step_number :: int
  step_name :: string
  task_description :: string
  assigned_user_id :: nat
  s_status :: step_status
  completed_at :: "nat option"

record workflow_action =
  a_id :: nat
  a_project_id :: nat
  a_step_id :: "nat option"
  a_user_id :: nat
  action :: action_kind
  a_step_number :: "int option"
  comments :: "string option"
  timestamp :: nat

record project_asset =
  as_id :: nat
  as_project_id :: nat
  uploaded_by :: nat
  asset_type :: string
  filename :: string
  uploaded_at :: nat

record notification =
  n_id :: nat
  n_user_id :: nat
  n_project_id :: "nat option"
  message :: string
  is_read :: bool

record db =
  users :: "user list"
  projects :: "project list"
  project_steps :: "project_step list"
  workflow_actions :: "workflow_action list"
  project_assets :: "project_asset list"
  notifications :: "notification list"

text \<open>
  Every distinct \<^verbatim>\<open>jsonify({'error': ...}), code\<close> the workflow routes return, with
  its HTTP status. \<open>Internal_server_error\<close> is an uncaught Python exception
  (\<^verbatim>\<open>max([])\<close> raising ValueError, a missing dictionary key, an IntegrityError at
  commit).
\<close>

datatype error =
    Missing_required_fields
  | At_least_one_step_required
  | Invalid_step_data
  | User_not_found nat
  | Project_not_found
  | Only_project_owner
  | No_active_step_found
  | Not_assigned_to_current_step
  | Comments_required
  | No_previous_step
  | Access_denied
  | Internal_server_error

fun http_status :: "error \<Rightarrow> nat" where
  "http_status Missing_required_fields = 400"
| "http_status At_least_one_step_required = 400"
| "http_status Invalid_step_data = 400"
| "http_status (User_not_found u) = 404"
| "http_status Project_not_found = 404"
| "http_status Only_project_owner = 403"
| "http_status No_active_step_found = 400"
| "http_status Not_assigned_to_current_step = 403"
| "http_status Comments_required = 400"
| "http_status No_previous_step = 400"
| "http_status Access_denied = 403"
| "http_status Internal_server_error = 500"

subsection \<open>Request bodies\<close>

text \<open>
  A JSON object is a record of optional fields: \<open>None\<close> is an absent key
  (\<^verbatim>\<open>k in data\<close> is false).
\<close>

record step_data =
  sd_step_number :: "int option"
  sd_step_name :: "string option"
  sd_task_description :: "string option"
  sd_assigned_user_id :: "nat option"

record project_data =
  d_project_name :: "string option"
  d_description :: "string option"
  d_steps :: "step_data list option"

record body =
  b_comments :: "string option"

subsection \<open>Primary keys, queries and Python helpers\<close>

text \<open>SQLite gives a new row of an INTEGER PRIMARY KEY table the largest rowid plus one.\<close>

definition next_id :: "nat list \<Rightarrow> nat" where
  "next_id ids = Suc (fold max ids 0)"

text \<open>\<^verbatim>\<open>db.session.get(Project, project_id)\<close> and \<^verbatim>\<open>User.query.get(id)\<close>.\<close>

definition get_project_row :: "db \<Rightarrow> nat \<Rightarrow> project option" where
  "get_project_row s pid = find (\<lambda>p. p_id p = pid) (projects s)"

definition get_user_row :: "db \<Rightarrow> nat \<Rightarrow> user option" where
  "get_user_row s uid = find (\<lambda>u. u_id u = uid) (users s)"

text \<open>
  \<^verbatim>\<open>.order_by(col.desc()).first()\<close> and \<^verbatim>\<open>.order_by(col.asc()).first()\<close>:
  the first row, in table order, among those with the greatest (least) key.
\<close>

fun first_desc :: "('a \<Rightarrow> int) \<Rightarrow> 'a list \<Rightarrow> 'a option" where
  "first_desc f [] = None"
| "first_desc f (x # xs) =
     (case first_desc f xs of
        None \<Rightarrow> Some x
      | Some y \<Rightarrow> if f x < f y then Some y else Some x)"

fun first_asc :: "('a \<Rightarrow> int) \<Rightarrow> 'a list \<Rightarrow> 'a option" where
  "first_asc f [] = None"
| "first_asc f (x # xs) =
     (case first_asc f xs of
        None \<Rightarrow> Some x
      | Some y \<Rightarrow> if f y < f x then Some y else Some x)"

text \<open>Python's \<^verbatim>\<open>max(list)\<close>; \<open>None\<close> is the ValueError on an empty list.\<close>

fun py_max :: "int list \<Rightarrow> int option" where
  "py_max [] = None"
| "py_max (x # xs) = Some (fold max xs x)"

text \<open>Python's \<^verbatim>\<open>str(int)\<close>, for the step numbers interpolated into messages.\<close>

fun str_nat :: "nat \<Rightarrow> string" where
  "str_nat n =
     (if n < 10 then [''0123456789'' ! n]
      else str_nat (n div 10) @ [''0123456789'' ! (n mod 10)])"

definition str_int :: "int \<Rightarrow> string" where
  "str_int i = (if i < 0 then CHR ''-'' # str_nat (nat (- i)) else str_nat (nat i))"

declare str_nat.simps [simp del]

text \<open>
  A mutated ORM object is written back to the row with its primary key
  (\<^verbatim>\<open>UPDATE ... WHERE id = ?\<close>).
\<close>

definition save_project :: "project \<Rightarrow> db \<Rightarrow> db" where
  "save_project p' s =
     s\<lparr>projects := map (\<lambda>p. if p_id p = p_id p' then p' else p) (projects s)\<rparr>"

definition save_step :: "project_step \<Rightarrow> db \<Rightarrow> db" where
  "save_step st' s =
     s\<lparr>project_steps := map (\<lambda>st. if s_id st = s_id st' then st' else st) (project_steps s)\<rparr>"

definition steps_of :: "db \<Rightarrow> nat \<Rightarrow> project_step list" where
  "steps_of s pid = filter (\<lambda>st. s_project_id st = pid) (project_steps s)"

text \<open>
  \<^verbatim>\<open>Project.to_dict()\<close>: the project row and its steps ordered by step number,
  descending.
\<close>

type_synonym project_view = "project \<times> project_step list"

definition to_dict :: "db \<Rightarrow> project \<Rightarrow> project_view" where
  "to_dict s p = (p, sort_key (\<lambda>st. - step_number st) (steps_of s (p_id p)))"

section \<open>Sessions and commits\<close>

text \<open>
  A request works on its session's view of the database; \<^verbatim>\<open>db.session.commit()\<close>
  makes that view durable. A session is the working view paired with the list of the
  snapshots committed so far, oldest first. A request that returns without committing
  leaves the database as it was (Flask-SQLAlchemy discards the session at the end of the
  request), so the database after a request is the last snapshot, or the database before
  it when nothing was committed.
\<close>

type_synonym session = "db \<times> db list"

definition commit :: "session \<Rightarrow> session" where
  "commit = (\<lambda>(s, log). (s, log @ [s]))"

definition committed_state :: "db \<Rightarrow> db list \<Rightarrow> db" where
  "committed_state db0 log = last (db0 # log)"

section \<open>Helper functions\<close>

definition create_notification :: "nat \<Rightarrow> nat \<Rightarrow> string \<Rightarrow> session \<Rightarrow> session" where
  "create_notification user_id project_id msg = (\<lambda>(s, log).
     commit
       (s\<lparr>notifications := notifications s @
            [\<lparr>n_id = next_id (map n_id (notifications s)), n_user_id = user_id,
              n_project_id = Some project_id, message = msg, is_read = False\<rparr>]\<rparr>,
        log))"

definition log_action ::
  "nat \<Rightarrow> nat \<Rightarrow> action_kind \<Rightarrow> int option \<Rightarrow> nat option \<Rightarrow> string option \<Rightarrow> nat \<Rightarrow>
   session \<Rightarrow> session" where
  "log_action project_id user_id act step_no step_id cmts now = (\<lambda>(s, log).
     commit
       (s\<lparr>workflow_actions := workflow_actions s @
            [\<lparr>a_id = next_id (map a_id (workflow_actions s)), a_project_id = project_id,
              a_step_id = step_id, a_user_id = user_id, action = act,
              a_step_number = step_no, comments = cmts, timestamp = now\<rparr>]\<rparr>,
        log))"

text \<open>
  \<^verbatim>\<open>if not project.current_step_number: return None\<close>: Python's \<^verbatim>\<open>not\<close> is true of
  \<^verbatim>\<open>None\<close> and of the integer 0 alike.
\<close>

definition get_current_step :: "db \<Rightarrow> project \<Rightarrow> project_step option" where
  "get_current_step s project =
     (case current_step_number project of
        None \<Rightarrow> None
      | Some n \<Rightarrow>
          if n = 0 then None
          else find (\<lambda>st. s_project_id st = p_id project \<and> step_number st = n)
                 (project_steps s))"

definition get_next_step :: "db \<Rightarrow> project \<Rightarrow> project_step option" where
  "get_next_step s project =
     (case current_step_number project of
        None \<Rightarrow> None
      | Some n \<Rightarrow>
          if n = 0 then None
          else first_desc step_number
                 (filter (\<lambda>st. step_number st < n) (steps_of s (p_id project))))"

definition get_previous_step :: "db \<Rightarrow> project \<Rightarrow> project_step option" where
  "get_previous_step s project =
     (case current_step_number project of
        None \<Rightarrow> None
      | Some n \<Rightarrow>
          if n = 0 then None
          else first_asc step_number
                 (filter (\<lambda>st. n < step_number st) (steps_of s (p_id project))))"

definition project_owner_required :: "nat \<Rightarrow> nat \<Rightarrow> db \<Rightarrow> error + project" where
  "project_owner_required current_user project_id s =
     (case get_project_row s project_id of
        None \<Rightarrow> Inl Project_not_found
      | Some project \<Rightarrow>
          if owner_id project \<noteq> current_user then Inl Only_project_owner
          else Inr project)"

section \<open>Workflow routes\<close>

text \<open>
  Each route takes the authenticated user's id (what \<^verbatim>\<open>token_required\<close> passes on),
  the request data, the clock reading and the database, and returns its response together
  with the snapshots it committed.
\<close>

definition step_data_complete :: "step_data \<Rightarrow> bool" where
  "step_data_complete sd \<longleftrightarrow>
     sd_step_number sd \<noteq> None \<and> sd_step_name sd \<noteq> None \<and>
     sd_task_description sd \<noteq> None \<and> sd_assigned_user_id sd \<noteq> None"

text \<open>\<^verbatim>\<open>db.session.add(ProjectStep(..., status='Pending'))\<close>; \<open>None\<close> is a KeyError.\<close>

definition add_step :: "nat \<Rightarrow> step_data \<Rightarrow> db \<Rightarrow> db option" where
  "add_step pid sd s =
     (case sd_step_number sd of None \<Rightarrow> None | Some n \<Rightarrow>
      (case sd_step_name sd of None \<Rightarrow> None | Some nm \<Rightarrow>
       (case sd_task_description sd of None \<Rightarrow> None | Some td \<Rightarrow>
        (case sd_assigned_user_id sd of None \<Rightarrow> None | Some u \<Rightarrow>
           Some (s\<lparr>project_steps := project_steps s @
                  [\<lparr>s_id = next_id (map s_id (project_steps s)), s_project_id = pid,
                    step_number = n, step_name = nm, task_description = td,
                    assigned_user_id = u, s_status = Pending,
                    completed_at = None\<rparr>]\<rparr>)))))"

text \<open>The validation loop of \<^verbatim>\<open>create_project\<close>; \<open>None\<close> is a list that passes.\<close>

fun validate_steps :: "db \<Rightarrow> step_data list \<Rightarrow> error option" where
  "validate_steps s [] = None"
| "validate_steps s (sd # sds) =
     (if \<not> step_data_complete sd then Some Invalid_step_data
      else (case sd_assigned_user_id sd of
              None \<Rightarrow> Some Internal_server_error
            | Some u \<Rightarrow>
                if get_user_row s u = None then Some (User_not_found u)
                else validate_steps s sds))"

text \<open>\<^verbatim>\<open>[s['step_number'] for s in data['steps']]\<close>; \<open>None\<close> is a KeyError.\<close>

fun step_numbers :: "step_data list \<Rightarrow> int list option" where
  "step_numbers [] = Some []"
| "step_numbers (sd # sds) =
     (case sd_step_number sd of
        None \<Rightarrow> None
      | Some n \<Rightarrow> map_option ((#) n) (step_numbers sds))"

text \<open>The step-creating loop of \<^verbatim>\<open>create_project\<close>.\<close>

fun create_steps :: "nat \<Rightarrow> step_data list \<Rightarrow> db \<Rightarrow> db option" where
  "create_steps pid [] s = Some s"
| "create_steps pid (sd # sds) s =
     (case add_step pid sd s of
        None \<Rightarrow> None
      | Some s' \<Rightarrow> create_steps pid sds s')"

text \<open>The step-creating loop of \<^verbatim>\<open>edit_project\<close>, which checks each item as it goes.\<close>

fun replace_steps :: "nat \<Rightarrow> step_data list \<Rightarrow> db \<Rightarrow> error + db" where
  "replace_steps pid [] s = Inr s"
| "replace_steps pid (sd # sds) s =
     (if \<not> step_data_complete sd then Inl Invalid_step_data
      else (case add_step pid sd s of
              None \<Rightarrow> Inl Internal_server_error
            | Some s' \<Rightarrow> replace_steps pid sds s'))"

definition create_project ::
  "nat \<Rightarrow> project_data \<Rightarrow> nat \<Rightarrow> db \<Rightarrow> (error + project_view) \<times> db list" where
  "create_project current_user data now db =
     (case d_project_name data of None \<Rightarrow> (Inl Missing_required_fields, []) | Some name \<Rightarrow>
      (case d_description data of None \<Rightarrow> (Inl Missing_required_fields, []) | Some descr \<Rightarrow>
       (case d_steps data of None \<Rightarrow> (Inl Missing_required_fields, []) | Some sds \<Rightarrow>
        if sds = [] then (Inl At_least_one_step_required, [])
        else
         (case validate_steps db sds of Some e \<Rightarrow> (Inl e, []) | None \<Rightarrow>
          let project = \<lparr>p_id = next_id (map p_id (projects db)), project_name = name,
                         description = descr, owner_id = current_user,
                         p_status = P_In_Progress, current_step_number = None,
                         updated_at = now\<rparr>;
              s1 = db\<lparr>projects := projects db @ [project]\<rparr>
          in
          (case Option.bind (step_numbers sds) py_max of
             None \<Rightarrow> (Inl Internal_server_error, [])
           | Some highest_step \<Rightarrow>
          (case create_steps (p_id project) sds s1 of
             None \<Rightarrow> (Inl Internal_server_error, [])
           | Some s2 \<Rightarrow>
             let project' = project\<lparr>current_step_number := Some highest_step,
                                     updated_at := now\<rparr>;
                 s3 = save_project project' s2;
                 highest_step_obj =
                   find (\<lambda>st. s_project_id st = p_id project \<and> step_number st = highest_step)
                     (project_steps s3);
                 s4 = (case highest_step_obj of
                         None \<Rightarrow> s3
                       | Some h \<Rightarrow> save_step (h\<lparr>s_status := In_Progress\<rparr>) s3);
                 sess1 = commit (s4, []);
                 sess2 = log_action (p_id project) current_user Create None None
                           (Some ''Project created'') now sess1;
                 sess3 = (case highest_step_obj of
                            None \<Rightarrow> sess2
                          | Some h \<Rightarrow>
                              create_notification (assigned_user_id h) (p_id project)
                                (''New project assigned: '' @ project_name project' @
                                 ''. You are at Step '' @ str_int highest_step @ '': '' @
                                 step_name h)
                                sess2)
             in (Inr (to_dict (fst sess3) project'), snd sess3)))))))"

text \<open>
  The \<^verbatim>\<open>if 'steps' in data:\<close> block of \<^verbatim>\<open>edit_project\<close>: the bulk delete of the
  project's steps, the loop, and the reset of the current step number.
\<close>

definition edit_steps :: "project \<Rightarrow> step_data list \<Rightarrow> db \<Rightarrow> error + project \<times> db" where
  "edit_steps project sds s =
     (case replace_steps (p_id project) sds
             (s\<lparr>project_steps :=
                  filter (\<lambda>st. s_project_id st \<noteq> p_id project) (project_steps s)\<rparr>) of
        Inl e \<Rightarrow> Inl e
      | Inr s1 \<Rightarrow>
          (case Option.bind (step_numbers sds) py_max of
             None \<Rightarrow> Inl Internal_server_error
           | Some highest_step \<Rightarrow>
               Inr (project\<lparr>current_step_number := Some highest_step\<rparr>, s1)))"

definition edit_project ::
  "nat \<Rightarrow> nat \<Rightarrow> project_data \<Rightarrow> nat \<Rightarrow> db \<Rightarrow> (error + project_view) \<times> db list" where
  "edit_project current_user project_id data now db =
     (case project_owner_required current_user project_id db of
        Inl e \<Rightarrow> (Inl e, [])
      | Inr project \<Rightarrow>
          let p1 = (case d_project_name data of
                      None \<Rightarrow> project
                    | Some name \<Rightarrow> project\<lparr>project_name := name\<rparr>);
              p2 = (case d_description data of
                      None \<Rightarrow> p1
                    | Some descr \<Rightarrow> p1\<lparr>description := descr\<rparr>)
          in
          (case (case d_steps data of
                   None \<Rightarrow> Inr (p2, db)
                 | Some sds \<Rightarrow> edit_steps p2 sds db) of
             Inl e \<Rightarrow> (Inl e, [])
           | Inr (p3, s1) \<Rightarrow>
               let project' = p3\<lparr>updated_at := now\<rparr>;
                   sess1 = commit (save_project project' s1, []);
                   sess2 = log_action (p_id project') current_user Edit None None
                             (Some ''Project edited'') now sess1
               in (Inr (to_dict (fst sess2) project'), snd sess2)))"

text \<open>
  \<^verbatim>\<open>db.session.delete(project)\<close> followed by the commit. The models decide what the
  unit of work does with the rows that refer to the project:
  \<^item> \<^verbatim>\<open>Project.steps\<close> has \<^verbatim>\<open>cascade='all, delete-orphan'\<close>: the steps are deleted;
  \<^item> \<^verbatim>\<open>Project.actions\<close> and \<^verbatim>\<open>Project.assets\<close> are backrefs without a delete
    cascade, so the unit of work sets \<^verbatim>\<open>project_id\<close> of each audit row and asset of the
    project to NULL; both columns are \<^verbatim>\<open>nullable=False\<close>, so with any such row the
    commit raises IntegrityError: the request ends with status 500 and nothing is
    committed (the route's comment ``cascade will delete steps, actions, etc.'' is not what
    the models declare);
  \<^item> \<^verbatim>\<open>ProjectStep.actions\<close> is a backref without a delete cascade on the nullable
    \<^verbatim>\<open>step_id\<close>: audit rows that refer to a deleted step keep existing with
    \<^verbatim>\<open>step_id\<close> NULL;
  \<^item> notifications are not in any collection of the project and stay as they are.
\<close>

definition delete_project :: "nat \<Rightarrow> nat \<Rightarrow> db \<Rightarrow> (error + string) \<times> db list" where
  "delete_project current_user project_id db =
     (case project_owner_required current_user project_id db of
        Inl e \<Rightarrow> (Inl e, [])
      | Inr project \<Rightarrow>
          let project_name' = project_name project;
              deleted_steps = map s_id (steps_of db (p_id project))
          in
          if filter (\<lambda>a. a_project_id a = p_id project) (workflow_actions db) = [] \<and>
             filter (\<lambda>a. as_project_id a = p_id project) (project_assets db) = []
          then
            let s1 = db\<lparr>projects := filter (\<lambda>p. p_id p \<noteq> p_id project) (projects db),
                        project_steps :=
                          filter (\<lambda>st. s_project_id st \<noteq> p_id project) (project_steps db),
                        workflow_actions :=
                          map (\<lambda>a. case a_step_id a of
                                      None \<Rightarrow> a
                                    | Some i \<Rightarrow>
                                        if i \<in> set deleted_steps then a\<lparr>a_step_id := None\<rparr>
                                        else a)
                            (workflow_actions db)\<rparr>;
                sess1 = commit (s1, [])
            in (Inr (''Project '' @ [CHR 0x22] @ project_name' @ [CHR 0x22] @
                     '' deleted successfully''),
                snd sess1)
          else (Inl Internal_server_error, []))"

definition forward_step ::
  "nat \<Rightarrow> nat \<Rightarrow> body option \<Rightarrow> nat \<Rightarrow> db \<Rightarrow> (error + project_view) \<times> db list" where
  "forward_step current_user project_id data now db =
     (case get_project_row db project_id of
        None \<Rightarrow> (Inl Project_not_found, [])
      | Some project \<Rightarrow>
     (case get_current_step db project of
        None \<Rightarrow> (Inl No_active_step_found, [])
      | Some current_step \<Rightarrow>
          if assigned_user_id current_step \<noteq> current_user
          then (Inl Not_assigned_to_current_step, [])
          else
            let cmts = (case data of
                          None \<Rightarrow> []
                        | Some b \<Rightarrow> (case b_comments b of None \<Rightarrow> [] | Some c \<Rightarrow> c));
                current_step' = current_step\<lparr>s_status := Completed, completed_at := Some now\<rparr>;
                s1 = save_step current_step' db
            in
            (case get_next_step s1 project of
               Some next_step \<Rightarrow>
                 let project' = project\<lparr>current_step_number := Some (step_number next_step),
                                         updated_at := now\<rparr>;
                     next_step' = next_step\<lparr>s_status := In_Progress\<rparr>;
                     s2 = save_step next_step' (save_project project' s1);
                     sess1 = log_action (p_id project) current_user Forward
                               (Some (step_number current_step')) (Some (s_id current_step'))
                               (Some cmts) now (s2, []);
                     sess2 = create_notification (assigned_user_id next_step') (p_id project)
                               (''Project forwarded to you: '' @ project_name project' @
                                ''. Step '' @ str_int (step_number next_step') @ '': '' @
                                step_name next_step')
                               sess1;
                     sess3 = commit sess2
                 in (Inr (to_dict (fst sess3) project'), snd sess3)
             | None \<Rightarrow>
                 let project' = project\<lparr>p_status := P_Completed, current_step_number := None,
                                         updated_at := now\<rparr>;
                     s2 = save_project project' s1;
                     sess1 = log_action (p_id project) current_user Complete
                               (Some (step_number current_step')) (Some (s_id current_step'))
                               (Some cmts) now (s2, []);
                     sess2 = create_notification (owner_id project') (p_id project)
                               (''Project completed: '' @ project_name project' @
                                ''. All steps finished.'')
                               sess1;
                     sess3 = commit sess2
                 in (Inr (to_dict (fst sess3) project'), snd sess3))))"

definition send_back_step ::
  "nat \<Rightarrow> nat \<Rightarrow> body option \<Rightarrow> nat \<Rightarrow> db \<Rightarrow> (error + project_view) \<times> db list" where
  "send_back_step current_user project_id data now db =
     (case get_project_row db project_id of
        None \<Rightarrow> (Inl Project_not_found, [])
      | Some project \<Rightarrow>
     (case get_current_step db project of
        None \<Rightarrow> (Inl No_active_step_found, [])
      | Some current_step \<Rightarrow>
          if assigned_user_id current_step \<noteq> current_user
          then (Inl Not_assigned_to_current_step, [])
          else
            (case (case data of None \<Rightarrow> None | Some b \<Rightarrow> b_comments b) of
               None \<Rightarrow> (Inl Comments_required, [])
             | Some cmts \<Rightarrow>
                 if cmts = [] then (Inl Comments_required, [])
                 else
                 (case get_previous_step db project of
                    None \<Rightarrow> (Inl No_previous_step, [])
                  | Some previous_step \<Rightarrow>
                      let current_step' = current_step\<lparr>s_status := Sent_Back\<rparr>;
                          s1 = save_step current_step' db;
                          project' = project\<lparr>current_step_number :=
                                               Some (step_number previous_step),
                                             updated_at := now\<rparr>;
                          previous_step' = previous_step\<lparr>s_status := In_Progress,
                                                          completed_at := None\<rparr>;
                          s2 = save_step previous_step' (save_project project' s1);
                          sess1 = log_action (p_id project) current_user Send_Back
                                    (Some (step_number current_step')) (Some (s_id current_step'))
                                    (Some cmts) now (s2, []);
                          sess2 = create_notification (assigned_user_id previous_step')
                                    (p_id project)
                                    (''Project sent back to you: '' @ project_name project' @
                                     ''. Step '' @ str_int (step_number previous_step') @
                                     '': '' @ step_name previous_step' @ ''. Reason: '' @ cmts)
                                    sess1;
                          sess3 = commit sess2
                      in (Inr (to_dict (fst sess3) project'), snd sess3)))))"

section \<open>Data retrieval routes\<close>

definition get_project :: "nat \<Rightarrow> nat \<Rightarrow> db \<Rightarrow> error + project_view" where
  "get_project current_user project_id db =
     (case get_project_row db project_id of
        None \<Rightarrow> Inl Project_not_found
      | Some project \<Rightarrow>
          let is_owner = (owner_id project = current_user);
              is_assigned =
                (find (\<lambda>st. s_project_id st = project_id \<and> assigned_user_id st = current_user)
                   (project_steps db) \<noteq> None)
          in if \<not> (is_owner \<or> is_assigned) then Inl Access_denied
             else Inr (to_dict db project))"

definition get_project_actions :: "nat \<Rightarrow> nat \<Rightarrow> db \<Rightarrow> error + workflow_action list" where
  "get_project_actions current_user project_id db =
     (case get_project_row db project_id of
        None \<Rightarrow> Inl Project_not_found
      | Some project \<Rightarrow>
          Inr (sort_key (\<lambda>a. - int (timestamp a))
                 (filter (\<lambda>a. a_project_id a = project_id) (workflow_actions db))))"

definition get_project_assets :: "nat \<Rightarrow> nat \<Rightarrow> db \<Rightarrow> error + project_asset list" where
  "get_project_assets current_user project_id db =
     (case get_project_row db project_id of
        None \<Rightarrow> Inl Project_not_found
      | Some project \<Rightarrow>
          Inr (sort_key (\<lambda>a. - int (uploaded_at a))
                 (filter (\<lambda>a. as_project_id a = project_id) (project_assets db))))"

section \<open>Notions used to state the properties\<close>

text \<open>Lookup of a step by primary key, and the primary-key constraint on the step table.\<close>

definition get_step_row :: "db \<Rightarrow> nat \<Rightarrow> project_step option" where
  "get_step_row s sid = find (\<lambda>st. s_id st = sid) (project_steps s)"

definition step_ids_unique :: "db \<Rightarrow> bool" where
  "step_ids_unique s \<longleftrightarrow> distinct (map s_id (project_steps s))"

text \<open>
  The invariant of the specification: no two steps of the project are In Progress; a
  project without a current step number is Completed; a project with one is not, and its
  In Progress step is the one with that number.
\<close>

definition workflow_invariant :: "db \<Rightarrow> project \<Rightarrow> bool" where
  "workflow_invariant s p =
     (let active = filter (\<lambda>st. s_status st = In_Progress) (steps_of s (p_id p))
      in length active \<le> 1 \<and>
         (case current_step_number p of
            None \<Rightarrow> p_status p = P_Completed
          | Some n \<Rightarrow> p_status p \<noteq> P_Completed \<and> map step_number active = [n]))"

text \<open>
  An operation is all-or-nothing when every snapshot it commits is either the database it
  started from or the database it ends with.
\<close>

definition all_or_nothing :: "db \<Rightarrow> db list \<Rightarrow> bool" where
  "all_or_nothing db0 log = list_all (\<lambda>s. s = db0 \<or> s = committed_state db0 log) log"

text \<open>A sequence of Forward and SendBack requests on one project, by any users.\<close>

datatype call = Forward_call nat "body option" nat | Send_back_call nat "body option" nat

fun run_call :: "nat \<Rightarrow> call \<Rightarrow> db \<Rightarrow> db" where
  "run_call pid (Forward_call u data now) s =
     committed_state s (snd (forward_step u pid data now s))"
| "run_call pid (Send_back_call u data now) s =
     committed_state s (snd (send_back_step u pid data now s))"

fun run_calls :: "nat \<Rightarrow> call list \<Rightarrow> db \<Rightarrow> db" where
  "run_calls pid [] s = s"
| "run_calls pid (c # cs) s = run_calls pid cs (run_call pid c s)"

section \<open>Example data\<close>

text \<open>
  The scenario of the specification: owner 1 creates project P with the steps
  (3, Draft, user 2), (2, Review, user 3), (1, Publish, user 4); user 5 has no part in it.
\<close>

definition ex_users :: "user list" where
  "ex_users = [\<lparr>u_id = 1, username = ''owner'', is_active = True\<rparr>,
               \<lparr>u_id = 2, username = ''userA'', is_active = True\<rparr>,
               \<lparr>u_id = 3, username = ''userB'', is_active = True\<rparr>,
               \<lparr>u_id = 4, username = ''userC'', is_active = True\<rparr>,
               \<lparr>u_id = 5, username = ''other'', is_active = True\<rparr>]"

definition ex_db0 :: db where
  "ex_db0 = \<lparr>users = ex_users, projects = [], project_steps = [], workflow_actions = [],
             project_assets = [], notifications = []\<rparr>"

definition ex_step_data :: "int \<Rightarrow> string \<Rightarrow> nat \<Rightarrow> step_data" where
  "ex_step_data n nm u = \<lparr>sd_step_number = Some n, sd_step_name = Some nm,
                          sd_task_description = Some ''T'', sd_assigned_user_id = Some u\<rparr>"

definition ex_data :: project_data where
  "ex_data = \<lparr>d_project_name = Some ''P'', d_description = Some ''D'',
              d_steps = Some [ex_step_data 3 ''Draft'' 2, ex_step_data 2 ''Review'' 3,
                              ex_step_data 1 ''Publish'' 4]\<rparr>"

definition ex_project :: "project_status \<Rightarrow> int option \<Rightarrow> nat \<Rightarrow> project" where
  "ex_project st n t = \<lparr>p_id = 1, project_name = ''P'', description = ''D'', owner_id = 1,
                        p_status = st, current_step_number = n, updated_at = t\<rparr>"

definition ex_step ::
  "nat \<Rightarrow> int \<Rightarrow> string \<Rightarrow> nat \<Rightarrow> step_status \<Rightarrow> nat option \<Rightarrow> project_step" where
  "ex_step i n nm u st c = \<lparr>s_id = i, s_project_id = 1, step_number = n, step_name = nm,
                            task_description = ''T'', assigned_user_id = u, s_status = st,
                            completed_at = c\<rparr>"

definition ex_action ::
  "nat \<Rightarrow> nat \<Rightarrow> action_kind \<Rightarrow> int option \<Rightarrow> nat option \<Rightarrow> string \<Rightarrow> nat \<Rightarrow> workflow_action" where
  "ex_action i u k n sid c t = \<lparr>a_id = i, a_project_id = 1, a_step_id = sid, a_user_id = u,
                                action = k, a_step_number = n, comments = Some c,
                                timestamp = t\<rparr>"

definition ex_notification :: "nat \<Rightarrow> nat \<Rightarrow> string \<Rightarrow> notification" where
  "ex_notification i u m = \<lparr>n_id = i, n_user_id = u, n_project_id = Some 1, message = m,
                            is_read = False\<rparr>"

text \<open>After creation: step 3 is current.\<close>

definition ex_db1 :: db where
  "ex_db1 = \<lparr>users = ex_users,
             projects = [ex_project P_In_Progress (Some 3) 10],
             project_steps = [ex_step 1 3 ''Draft'' 2 In_Progress None,
                              ex_step 2 2 ''Review'' 3 Pending None,
                              ex_step 3 1 ''Publish'' 4 Pending None],
             workflow_actions = [ex_action 1 1 Create None None ''Project created'' 10],
             project_assets = [],
             notifications =
               [ex_notification 1 2 ''New project assigned: P. You are at Step 3: Draft'']\<rparr>"

text \<open>After user 2 forwards at time 20: step 2 is current.\<close>

definition ex_db2 :: db where
  "ex_db2 = \<lparr>users = ex_users,
             projects = [ex_project P_In_Progress (Some 2) 20],
             project_steps = [ex_step 1 3 ''Draft'' 2 Completed (Some 20),
                              ex_step 2 2 ''Review'' 3 In_Progress None,
                              ex_step 3 1 ''Publish'' 4 Pending None],
             workflow_actions = [ex_action 1 1 Create None None ''Project created'' 10,
                                 ex_action 2 2 Forward (Some 3) (Some 1) [] 20],
             project_assets = [],
             notifications =
               [ex_notification 1 2 ''New project assigned: P. You are at Step 3: Draft'',
                ex_notification 2 3 ''Project forwarded to you: P. Step 2: Review'']\<rparr>"

text \<open>After user 3 forwards at time 30: step 1, the last one, is current.\<close>

definition ex_db3 :: db where
  "ex_db3 = \<lparr>users = ex_users,
             projects = [ex_project P_In_Progress (Some 1) 30],
             project_steps = [ex_step 1 3 ''Draft'' 2 Completed (Some 20),
                              ex_step 2 2 ''Review'' 3 Completed (Some 30),
                              ex_step 3 1 ''Publish'' 4 In_Progress None],
             workflow_actions = [ex_action 1 1 Create None None ''Project created'' 10,
                                 ex_action 2 2 Forward (Some 3) (Some 1) [] 20,
                                 ex_action 3 3 Forward (Some 2) (Some 2) [] 30],
             project_assets = [],
             notifications =
               [ex_notification 1 2 ''New project assigned: P. You are at Step 3: Draft'',
                ex_notification 2 3 ''Project forwarded to you: P. Step 2: Review'',
                ex_notification 3 4 ''Project forwarded to you: P. Step 1: Publish'']\<rparr>"

text \<open>A project whose steps are numbered 1 and 0, and its state once step 1 is forwarded.\<close>

definition ex_data_zero :: project_data where
  "ex_data_zero = \<lparr>d_project_name = Some ''P'', d_description = Some ''D'',
                   d_steps = Some [ex_step_data 1 ''One'' 2, ex_step_data 0 ''Zero'' 3]\<rparr>"

definition ex_db_zero :: db where
  "ex_db_zero = \<lparr>users = ex_users,
                 projects = [ex_project P_In_Progress (Some 0) 20],
                 project_steps = [ex_step 1 1 ''One'' 2 Completed (Some 20),
                                  ex_step 2 0 ''Zero'' 3 In_Progress None],
                 workflow_actions = [ex_action 1 1 Create None None ''Project created'' 10,
                                     ex_action 2 2 Forward (Some 1) (Some 1) [] 20],
                 project_assets = [],
                 notifications =
                   [ex_notification 1 2 ''New project assigned: P. You are at Step 1: One'',
                    ex_notification 2 3 ''Project forwarded to you: P. Step 0: Zero'']\<rparr>"

text \<open>A request whose two steps carry the same number.\<close>

definition ex_data_dup :: project_data where
  "ex_data_dup = \<lparr>d_project_name = Some ''P'', d_description = Some ''D'',
                  d_steps = Some [ex_step_data 1 ''One'' 2, ex_step_data 1 ''Again'' 3]\<rparr>"

text \<open>A request body with a comment.\<close>

definition ex_body :: "string \<Rightarrow> body option" where
  "ex_body c = Some \<lparr>b_comments = Some c\<rparr>"

definition ex_asset :: project_asset where
  "ex_asset = \<lparr>as_id = 1, as_project_id = 1, uploaded_by = 2, asset_type = ''raw_footage'',
               filename = ''a.mp4'', uploaded_at = 15\<rparr>"

text \<open>Requests with an empty step list and with a step assigned to a user that does not exist.\<close>

definition ex_data_empty :: project_data where
  "ex_data_empty = \<lparr>d_project_name = Some ''P'', d_description = Some ''D'', d_steps = Some []\<rparr>"

definition ex_data_no_user :: project_data where
  "ex_data_no_user = \<lparr>d_project_name = Some ''P'', d_description = Some ''D'',
                       d_steps = Some [ex_step_data 2 ''Two'' 2, ex_step_data 1 ''One'' 9]\<rparr>"

text \<open>
  The database as \<^verbatim>\<open>create_project\<close> commits it first: the project and its steps are
  stored, the audit row and the notification are not yet written.
\<close>

definition ex_db_bare :: db where
  "ex_db_bare = \<lparr>users = ex_users,
                 projects = [ex_project P_In_Progress (Some 3) 10],
                 project_steps = [ex_step 1 3 ''Draft'' 2 In_Progress None,
                                  ex_step 2 2 ''Review'' 3 Pending None,
                                  ex_step 3 1 ''Publish'' 4 Pending None],
                 workflow_actions = [], project_assets = [], notifications = []\<rparr>"

text \<open>
  Two projects side by side: project 1 (owner 1) with the steps 5, 3, 1 and project 2
  (owner 5) with the steps 4, 2, whose numbers lie between those of project 1. In
  \<open>ex_pair1\<close> both have just been created; in \<open>ex_pair2\<close> user 2 has forwarded
  project 1 at time 20.
\<close>

definition ex_data_a :: project_data where
  "ex_data_a = \<lparr>d_project_name = Some ''P'', d_description = Some ''D'',
                d_steps = Some [ex_step_data 5 ''Draft'' 2, ex_step_data 3 ''Review'' 3,
                                ex_step_data 1 ''Publish'' 4]\<rparr>"

definition ex_data_b :: project_data where
  "ex_data_b = \<lparr>d_project_name = Some ''Q'', d_description = Some ''E'',
                d_steps = Some [ex_step_data 4 ''Shoot'' 5, ex_step_data 2 ''Cut'' 5]\<rparr>"

definition ex_pair1 :: db where
  "ex_pair1 =
     (let s1 = committed_state ex_db0 (snd (create_project 1 ex_data_a 10 ex_db0))
      in committed_state s1 (snd (create_project 5 ex_data_b 11 s1)))"

definition ex_pair2 :: db where
  "ex_pair2 = committed_state ex_pair1 (snd (forward_step 2 1 None 20 ex_pair1))"

section \<open>Auxiliary lemmas\<close>

lemma first_desc_None [simp]: "first_desc f xs = None \<longleftrightarrow> xs = []"
  by (induction xs) (auto split: option.splits)

lemma first_asc_None [simp]: "first_asc f xs = None \<longleftrightarrow> xs = []"
  by (induction xs) (auto split: option.splits)

lemma first_desc_Some:
  "first_desc f xs = Some y \<Longrightarrow> y \<in> set xs \<and> (\<forall>x\<in>set xs. f x \<le> f y)"
  by (induction xs arbitrary: y) (fastforce split: option.splits if_splits)+

lemma first_asc_Some:
  "first_asc f xs = Some y \<Longrightarrow> y \<in> set xs \<and> (\<forall>x\<in>set xs. f y \<le> f x)"
  by (induction xs arbitrary: y) (fastforce split: option.splits if_splits)+

lemma commit_pair [simp]: "commit (s, log) = (s, log @ [s])"
  by (simp add: commit_def)

lemma log_action_pair:
  "log_action pid uid act sn sid c now (s, log) =
     (s\<lparr>workflow_actions := workflow_actions s @
          [\<lparr>a_id = next_id (map a_id (workflow_actions s)), a_project_id = pid,
            a_step_id = sid, a_user_id = uid, action = act,
            a_step_number = sn, comments = c, timestamp = now\<rparr>]\<rparr>,
      log @ [s\<lparr>workflow_actions := workflow_actions s @
          [\<lparr>a_id = next_id (map a_id (workflow_actions s)), a_project_id = pid,
            a_step_id = sid, a_user_id = uid, action = act,
            a_step_number = sn, comments = c, timestamp = now\<rparr>]\<rparr>])"
  by (simp add: log_action_def)

lemma create_notification_pair:
  "create_notification uid pid msg (s, log) =
     (s\<lparr>notifications := notifications s @
          [\<lparr>n_id = next_id (map n_id (notifications s)), n_user_id = uid,
            n_project_id = Some pid, message = msg, is_read = False\<rparr>]\<rparr>,
      log @ [s\<lparr>notifications := notifications s @
          [\<lparr>n_id = next_id (map n_id (notifications s)), n_user_id = uid,
            n_project_id = Some pid, message = msg, is_read = False\<rparr>]\<rparr>])"
  by (simp add: create_notification_def)

lemma get_project_row_id: "get_project_row s pid = Some p \<Longrightarrow> p_id p = pid"
  by (auto simp: get_project_row_def find_Some_iff)

lemma find_key_save:
  "find (\<lambda>x. k x = i) (map (\<lambda>x. if k x = k y then y else x) xs) =
     (if i = k y then map_option (\<lambda>_. y) (find (\<lambda>x. k x = i) xs)
      else find (\<lambda>x. k x = i) xs)"
  by (induction xs) auto

lemma find_key_distinct:
  "distinct (map k xs) \<Longrightarrow> x \<in> set xs \<Longrightarrow> find (\<lambda>y. k y = k x) xs = Some x"
  by (induction xs) (auto simp: image_iff)

lemma get_project_row_save:
  "get_project_row (save_project p' s) pid =
     (if pid = p_id p' then map_option (\<lambda>_. p') (get_project_row s pid)
      else get_project_row s pid)"
  by (simp add: get_project_row_def save_project_def find_key_save)

lemma get_step_row_save:
  "get_step_row (save_step st' s) sid =
     (if sid = s_id st' then map_option (\<lambda>_. st') (get_step_row s sid)
      else get_step_row s sid)"
  by (simp add: get_step_row_def save_step_def find_key_save)

lemma get_step_row_member:
  "step_ids_unique s \<Longrightarrow> st \<in> set (project_steps s) \<Longrightarrow> get_step_row s (s_id st) = Some st"
  by (simp add: get_step_row_def step_ids_unique_def find_key_distinct)

lemma get_current_step_Some:
  "get_current_step s p = Some cs \<Longrightarrow>
     cs \<in> set (project_steps s) \<and> s_project_id cs = p_id p \<and>
     current_step_number p = Some (step_number cs) \<and> step_number cs \<noteq> 0"
  by (auto simp: get_current_step_def find_Some_iff split: option.splits if_splits)

lemma save_step_filter_unchanged:
  assumes "distinct (map s_id xs)" "cs \<in> set xs" "\<not> Q cs" "\<not> Q cs'" 
  shows "filter Q (map (\<lambda>st. if s_id st = s_id cs then cs' else st) xs) = filter Q xs"
proof -
  have eq: "\<And>st. st \<in> set xs \<Longrightarrow> s_id st = s_id cs \<Longrightarrow> st = cs"
    using assms(1,2) by (meson distinct_map inj_on_eq_iff)
  have "filter Q (map (\<lambda>st. if s_id st = s_id cs then cs' else st) xs)
        = map (\<lambda>st. if s_id st = s_id cs then cs' else st)
            (filter (Q \<circ> (\<lambda>st. if s_id st = s_id cs then cs' else st)) xs)"
    by (simp add: filter_map)
  also have "filter (Q \<circ> (\<lambda>st. if s_id st = s_id cs then cs' else st)) xs = filter Q xs"
    by (rule filter_cong) (use eq assms(3,4) in auto)
  also have "map (\<lambda>st. if s_id st = s_id cs then cs' else st) (filter Q xs) = map (\<lambda>st. st) (filter Q xs)"
    by (rule map_cong) (use eq assms(3) in auto)
  finally show ?thesis by simp
qed

lemma get_next_step_save_current:
  assumes "step_ids_unique s" "get_current_step s p = Some cs"
    and "s_id cs' = s_id cs" "step_number cs' = step_number cs"
  shows "get_next_step (save_step cs' s) p = get_next_step s p"
proof -
  from get_current_step_Some[OF assms(2)]
  have mem: "cs \<in> set (project_steps s)" and n: "current_step_number p = Some (step_number cs)"
    by auto
  have "filter (\<lambda>st. s_project_id st = p_id p \<and> step_number st < step_number cs)
          (map (\<lambda>st. if s_id st = s_id cs then cs' else st) (project_steps s))
        = filter (\<lambda>st. s_project_id st = p_id p \<and> step_number st < step_number cs) (project_steps s)"
    using assms(1) mem by (intro save_step_filter_unchanged) (auto simp: step_ids_unique_def assms(4))
  then show ?thesis
    using n by (simp add: get_next_step_def steps_of_def save_step_def assms(3) conj_commute)
qed

lemma get_next_step_Some:
  "get_next_step s p = Some ns \<Longrightarrow> current_step_number p = Some n \<Longrightarrow>
     ns \<in> set (filter (\<lambda>st. step_number st < n) (steps_of s (p_id p))) \<and>
     (\<forall>st \<in> set (filter (\<lambda>st. step_number st < n) (steps_of s (p_id p))).
        step_number st \<le> step_number ns)"
  by (auto simp: get_next_step_def split: if_splits dest!: first_desc_Some)

lemma get_next_step_None:
  "current_step_number p = Some n \<Longrightarrow> n \<noteq> 0 \<Longrightarrow>
   get_next_step s p = None \<longleftrightarrow> filter (\<lambda>st. step_number st < n) (steps_of s (p_id p)) = []"
  by (simp add: get_next_step_def)

lemma committed_state_simps [simp]:
  "committed_state db0 [] = db0"
  "committed_state db0 (s # log) = committed_state s log"
  by (simp_all add: committed_state_def)

lemma forward_step_state:
  assumes "get_project_row db pid = Some p"
    and "get_current_step db p = Some cs"
    and "assigned_user_id cs = uid"
  shows "committed_state db (snd (forward_step uid pid data now db)) =
     (let cs' = cs\<lparr>s_status := Completed, completed_at := Some now\<rparr>;
          s1 = save_step cs' db;
          cmts = (case data of None \<Rightarrow> [] | Some b \<Rightarrow> (case b_comments b of None \<Rightarrow> [] | Some c \<Rightarrow> c))
      in case get_next_step s1 p of
           Some ns \<Rightarrow>
             (save_step (ns\<lparr>s_status := In_Progress\<rparr>)
                (save_project (p\<lparr>current_step_number := Some (step_number ns), updated_at := now\<rparr>) s1))
               \<lparr>workflow_actions := workflow_actions db @
                  [\<lparr>a_id = next_id (map a_id (workflow_actions db)), a_project_id = pid,
                    a_step_id = Some (s_id cs), a_user_id = uid, action = Forward,
                    a_step_number = Some (step_number cs), comments = Some cmts, timestamp = now\<rparr>],
                notifications := notifications db @
                  [\<lparr>n_id = next_id (map n_id (notifications db)), n_user_id = assigned_user_id ns,
                    n_project_id = Some pid,
                    message = ''Project forwarded to you: '' @ project_name p @
                                ''. Step '' @ str_int (step_number ns) @ '': '' @ step_name ns,
                    is_read = False\<rparr>]\<rparr>
         | None \<Rightarrow>
             (save_project (p\<lparr>p_status := P_Completed, current_step_number := None, updated_at := now\<rparr>) s1)
               \<lparr>workflow_actions := workflow_actions db @
                  [\<lparr>a_id = next_id (map a_id (workflow_actions db)), a_project_id = pid,
                    a_step_id = Some (s_id cs), a_user_id = uid, action = Complete,
                    a_step_number = Some (step_number cs), comments = Some cmts, timestamp = now\<rparr>],
                notifications := notifications db @
                  [\<lparr>n_id = next_id (map n_id (notifications db)), n_user_id = owner_id p,
                    n_project_id = Some pid,
                    message = ''Project completed: '' @ project_name p @ ''. All steps finished.'',
                    is_read = False\<rparr>]\<rparr>)"
  using assms get_project_row_id[OF assms(1)]
  by (simp add: forward_step_def Let_def log_action_pair create_notification_pair
        save_step_def save_project_def split: option.splits)

lemma get_step_row_simps [simp]:
  "get_step_row (s\<lparr>workflow_actions := a\<rparr>) = get_step_row s"
  "get_step_row (s\<lparr>notifications := n\<rparr>) = get_step_row s"
  "get_step_row (save_project p' s) = get_step_row s"
  by (simp_all add: get_step_row_def save_project_def fun_eq_iff)

lemma get_project_row_simps [simp]:
  "get_project_row (s\<lparr>workflow_actions := a\<rparr>) = get_project_row s"
  "get_project_row (s\<lparr>notifications := n\<rparr>) = get_project_row s"
  "get_project_row (save_step st' s) = get_project_row s"
  by (simp_all add: get_project_row_def save_step_def fun_eq_iff)

lemma get_previous_step_Some:
  "get_previous_step s p = Some ps \<Longrightarrow> current_step_number p = Some n \<Longrightarrow>
     ps \<in> set (filter (\<lambda>st. n < step_number st) (steps_of s (p_id p))) \<and>
     (\<forall>st \<in> set (filter (\<lambda>st. n < step_number st) (steps_of s (p_id p))).
        step_number ps \<le> step_number st)"
  by (auto simp: get_previous_step_def split: if_splits dest!: first_asc_Some)

lemma get_previous_step_None:
  "current_step_number p = Some n \<Longrightarrow> n \<noteq> 0 \<Longrightarrow>
   get_previous_step s p = None \<longleftrightarrow> filter (\<lambda>st. n < step_number st) (steps_of s (p_id p)) = []"
  by (simp add: get_previous_step_def)

lemma send_back_step_state:
  assumes "get_project_row db pid = Some p"
    and "get_current_step db p = Some cs"
    and "assigned_user_id cs = uid"
    and "data = Some b" "b_comments b = Some c" "c \<noteq> []"
    and "get_previous_step db p = Some ps"
  shows "send_back_step uid pid data now db =
     (let s2 = save_step (ps\<lparr>s_status := In_Progress, completed_at := None\<rparr>)
                (save_project (p\<lparr>current_step_number := Some (step_number ps), updated_at := now\<rparr>)
                   (save_step (cs\<lparr>s_status := Sent_Back\<rparr>) db));
          sA = s2\<lparr>workflow_actions := workflow_actions db @
                  [\<lparr>a_id = next_id (map a_id (workflow_actions db)), a_project_id = pid,
                    a_step_id = Some (s_id cs), a_user_id = uid, action = Send_Back,
                    a_step_number = Some (step_number cs), comments = Some c, timestamp = now\<rparr>]\<rparr>;
          sB = sA\<lparr>notifications := notifications db @
                  [\<lparr>n_id = next_id (map n_id (notifications db)), n_user_id = assigned_user_id ps,
                    n_project_id = Some pid,
                    message = ''Project sent back to you: '' @ project_name p @
                                ''. Step '' @ str_int (step_number ps) @ '': '' @ step_name ps @
                                ''. Reason: '' @ c,
                    is_read = False\<rparr>]\<rparr>
      in (Inr (to_dict sB (p\<lparr>current_step_number := Some (step_number ps), updated_at := now\<rparr>)), [sA, sB, sB]))"
  using assms get_project_row_id[OF assms(1)]
  by (simp add: send_back_step_def Let_def log_action_pair create_notification_pair
        save_step_def save_project_def)

lemma create_project_failure:
  "fst (create_project cu d now db) = Inl e \<Longrightarrow> snd (create_project cu d now db) = []"
  by (auto simp: create_project_def Let_def split: option.splits if_splits)

lemma edit_project_failure:
  "fst (edit_project cu pid d now db) = Inl e \<Longrightarrow> snd (edit_project cu pid d now db) = []"
  by (auto simp: edit_project_def Let_def split: option.splits if_splits sum.splits prod.splits)

lemma delete_project_failure:
  "fst (delete_project cu pid db) = Inl e \<Longrightarrow> snd (delete_project cu pid db) = []"
  by (auto simp: delete_project_def Let_def split: sum.splits if_splits)

lemma forward_step_failure:
  "fst (forward_step cu pid data now db) = Inl e \<Longrightarrow> snd (forward_step cu pid data now db) = []"
  by (auto simp: forward_step_def Let_def split: option.splits if_splits)

lemma send_back_step_failure:
  "fst (send_back_step cu pid data now db) = Inl e \<Longrightarrow> snd (send_back_step cu pid data now db) = []"
  by (auto simp: send_back_step_def Let_def split: option.splits if_splits)

lemma forward_step_commits:
  assumes "fst (forward_step cu pid data now db) = Inr v"
  shows "let log = snd (forward_step cu pid data now db); db' = committed_state db log
         in length log = 3
          \<and> projects (log ! 0) = projects db' \<and> project_steps (log ! 0) = project_steps db'
          \<and> workflow_actions (log ! 0) = workflow_actions db'
          \<and> notifications (log ! 0) = notifications db
          \<and> length (workflow_actions db') = Suc (length (workflow_actions db))
          \<and> length (notifications db') = Suc (length (notifications db))"
proof -
  from assms obtain p where p: "get_project_row db pid = Some p"
    by (auto simp: forward_step_def split: option.splits)
  from assms p obtain cs where cs: "get_current_step db p = Some cs"
    by (auto simp: forward_step_def split: option.splits)
  from assms p cs have uid: "assigned_user_id cs = cu"
    by (auto simp: forward_step_def split: if_splits)
  show ?thesis
    using p cs uid
    by (cases "get_next_step (save_step (cs\<lparr>s_status := Completed, completed_at := Some now\<rparr>) db) p")
       (simp_all add: forward_step_def Let_def log_action_pair create_notification_pair
          save_step_def save_project_def)
qed

lemma send_back_step_commits:
  assumes "fst (send_back_step cu pid data now db) = Inr v"
  shows "let log = snd (send_back_step cu pid data now db); db' = committed_state db log
         in length log = 3
          \<and> projects (log ! 0) = projects db' \<and> project_steps (log ! 0) = project_steps db'
          \<and> workflow_actions (log ! 0) = workflow_actions db'
          \<and> notifications (log ! 0) = notifications db
          \<and> length (workflow_actions db') = Suc (length (workflow_actions db))
          \<and> length (notifications db') = Suc (length (notifications db))"
proof -
  from assms obtain p where p: "get_project_row db pid = Some p"
    by (auto simp: send_back_step_def split: option.splits)
  from assms p obtain cs where cs: "get_current_step db p = Some cs"
    by (auto simp: send_back_step_def split: option.splits)
  from assms p cs have uid: "assigned_user_id cs = cu"
    by (auto simp: send_back_step_def split: if_splits)
  from assms p cs uid obtain c where c: "(case data of None \<Rightarrow> None | Some b \<Rightarrow> b_comments b) = Some c"
    by (auto simp: send_back_step_def split: option.splits)
  from assms p cs uid c have ne: "c \<noteq> []"
    by (auto simp: send_back_step_def split: if_splits)
  from assms p cs uid c ne obtain ps where ps: "get_previous_step db p = Some ps"
    by (auto simp: send_back_step_def split: option.splits)
  show ?thesis
    using p cs uid c ne ps
    by (simp add: send_back_step_def Let_def log_action_pair create_notification_pair
          save_step_def save_project_def)
qed

lemma delete_project_commits:
  assumes "fst (delete_project cu pid db) = Inr v"
  shows "length (snd (delete_project cu pid db)) = 1"
proof -
  from assms obtain project where po: "project_owner_required cu pid db = Inr project"
    by (cases "project_owner_required cu pid db") (simp_all add: delete_project_def)
  from assms po
  have "filter (\<lambda>a. a_project_id a = p_id project) (workflow_actions db) = [] \<and>
        filter (\<lambda>a. as_project_id a = p_id project) (project_assets db) = []"
    by (auto simp: delete_project_def Let_def split: if_splits)
  with po show ?thesis
    by (simp add: delete_project_def Let_def)
qed

text \<open>
  \<^verbatim>\<open>delete_project\<close> never adds an audit row: when it succeeds the project had none, and
  the audit table keeps its rows, with the references to deleted steps cleared.
\<close>

lemma delete_project_no_audit:
  assumes "fst (delete_project cu pid db) = Inr v"
  shows "let acts = workflow_actions (committed_state db (snd (delete_project cu pid db)))
         in map a_id acts = map a_id (workflow_actions db)
          \<and> map action acts = map action (workflow_actions db)
          \<and> filter (\<lambda>a. a_project_id a = pid) (workflow_actions db) = []"
proof -
  from assms obtain project where po: "project_owner_required cu pid db = Inr project"
    by (cases "project_owner_required cu pid db") (simp_all add: delete_project_def)
  then have "get_project_row db pid = Some project"
    by (auto simp: project_owner_required_def split: option.splits if_splits)
  then have pid: "p_id project = pid" by (rule get_project_row_id)
  from assms po pid
  have none: "filter (\<lambda>a. a_project_id a = pid) (workflow_actions db) = []"
    and "filter (\<lambda>a. as_project_id a = pid) (project_assets db) = []"
    by (auto simp: delete_project_def Let_def split: if_splits)
  then show ?thesis
    using po pid
    by (simp add: delete_project_def Let_def comp_def split: option.splits)
qed

lemma delete_project_integrity_error:
  assumes "project_owner_required cu pid db = Inr project"
    and "a \<in> set (workflow_actions db)" "a_project_id a = pid"
  shows "delete_project cu pid db = (Inl Internal_server_error, [])"
proof -
  from assms(1) have "get_project_row db pid = Some project"
    by (auto simp: project_owner_required_def split: option.splits if_splits)
  then have pid: "p_id project = pid" by (rule get_project_row_id)
  from assms(2,3) have "filter (\<lambda>a. a_project_id a = pid) (workflow_actions db) \<noteq> []"
    by (auto simp: filter_empty_conv)
  with assms(1) pid show ?thesis
    by (simp add: delete_project_def Let_def)
qed

lemma create_steps_tables:
  "create_steps pid sds s = Some s' \<Longrightarrow>
     workflow_actions s' = workflow_actions s \<and> notifications s' = notifications s \<and>
     projects s' = projects s \<and> users s' = users s \<and> project_assets s' = project_assets s"
proof (induction sds arbitrary: s)
  case Nil
  then show ?case by simp
next
  case (Cons sd sds)
  from Cons.prems obtain s1 where a: "add_step pid sd s = Some s1"
    and r: "create_steps pid sds s1 = Some s'"
    by (auto split: option.splits)
  from a have "workflow_actions s1 = workflow_actions s \<and> notifications s1 = notifications s \<and>
     projects s1 = projects s \<and> users s1 = users s \<and> project_assets s1 = project_assets s"
    by (auto simp: add_step_def split: option.splits)
  with Cons.IH[OF r] show ?case by simp
qed

lemma replace_steps_tables:
  "replace_steps pid sds s = Inr s' \<Longrightarrow>
     workflow_actions s' = workflow_actions s \<and> notifications s' = notifications s \<and>
     projects s' = projects s \<and> users s' = users s \<and> project_assets s' = project_assets s"
proof (induction sds arbitrary: s)
  case Nil
  then show ?case by simp
next
  case (Cons sd sds)
  from Cons.prems obtain s1 where a: "add_step pid sd s = Some s1"
    and r: "replace_steps pid sds s1 = Inr s'"
    by (auto split: option.splits if_splits)
  from a have "workflow_actions s1 = workflow_actions s \<and> notifications s1 = notifications s \<and>
     projects s1 = projects s \<and> users s1 = users s \<and> project_assets s1 = project_assets s"
    by (auto simp: add_step_def split: option.splits)
  with Cons.IH[OF r] show ?case by simp
qed

lemma add_step_member:
  "add_step pid sd s = Some s' \<Longrightarrow> sd_step_number sd = Some n \<Longrightarrow>
     \<exists>st \<in> set (project_steps s'). s_project_id st = pid \<and> step_number st = n"
  by (auto simp: add_step_def split: option.splits)

lemma create_steps_mono:
  "create_steps pid sds s = Some s' \<Longrightarrow> set (project_steps s) \<subseteq> set (project_steps s')"
proof (induction sds arbitrary: s)
  case Nil
  then show ?case by simp
next
  case (Cons sd sds)
  from Cons.prems obtain s1 where a: "add_step pid sd s = Some s1"
    and r: "create_steps pid sds s1 = Some s'"
    by (auto split: option.splits)
  from a have "set (project_steps s) \<subseteq> set (project_steps s1)"
    by (auto simp: add_step_def split: option.splits)
  with Cons.IH[OF r] show ?case by blast
qed

lemma create_steps_numbers:
  "create_steps pid sds s = Some s' \<Longrightarrow> step_numbers sds = Some ns \<Longrightarrow> n \<in> set ns \<Longrightarrow>
     \<exists>st \<in> set (project_steps s'). s_project_id st = pid \<and> step_number st = n"
proof (induction sds arbitrary: s ns)
  case Nil
  then show ?case by simp
next
  case (Cons sd sds)
  from Cons.prems(1) obtain s1 where a: "add_step pid sd s = Some s1"
    and r: "create_steps pid sds s1 = Some s'"
    by (auto split: option.splits)
  from Cons.prems(2) obtain m ms where m: "sd_step_number sd = Some m"
    and ms: "step_numbers sds = Some ms" and ns: "ns = m # ms"
    by (auto split: option.splits)
  show ?case
  proof (cases "n = m")
    case True
    from add_step_member[OF a m] obtain st where "st \<in> set (project_steps s1)"
      "s_project_id st = pid" "step_number st = m" by blast
    with create_steps_mono[OF r] True show ?thesis by blast
  next
    case False
    with Cons.prems(3) ns have "n \<in> set ms" by simp
    from Cons.IH[OF r ms this] show ?thesis .
  qed
qed

lemma fold_max_in: "fold max xs (x::int) \<in> set (x # xs)"
  by (induction xs arbitrary: x) (auto simp: max_def)

lemma py_max_in: "py_max ns = Some h \<Longrightarrow> h \<in> set ns"
  using fold_max_in by (cases ns) auto

lemma fold_max_ge: "x \<le> fold max xs (x::int) \<and> (\<forall>y \<in> set xs. y \<le> fold max xs x)"
proof (induction xs arbitrary: x)
  case Nil
  then show ?case by simp
next
  case (Cons a xs)
  from Cons[of "max a x"] show ?case by simp
qed

lemma py_max_ge: "py_max ns = Some h \<Longrightarrow> n \<in> set ns \<Longrightarrow> n \<le> h"
  using fold_max_ge by (cases ns) auto

lemma create_project_success:
  assumes "fst (create_project cu d now db) = Inr v"
  shows "\<exists>name descr sds h s2.
           d_project_name d = Some name \<and> d_description d = Some descr \<and>
           d_steps d = Some sds \<and> sds \<noteq> [] \<and> validate_steps db sds = None \<and>
           Option.bind (step_numbers sds) py_max = Some h \<and>
           create_steps (next_id (map p_id (projects db))) sds
             (db\<lparr>projects := projects db @
                  [\<lparr>p_id = next_id (map p_id (projects db)), project_name = name,
                    description = descr, owner_id = cu, p_status = P_In_Progress,
                    current_step_number = None, updated_at = now\<rparr>]\<rparr>) = Some s2"
proof (cases "d_project_name d")
  case None
  with assms show ?thesis by (simp add: create_project_def)
next
  case name: (Some name)
  show ?thesis
  proof (cases "d_description d")
    case None
    with assms name show ?thesis by (simp add: create_project_def)
  next
    case descr: (Some descr)
    show ?thesis
    proof (cases "d_steps d")
      case None
      with assms name descr show ?thesis by (simp add: create_project_def)
    next
      case sds: (Some sds)
      from assms name descr sds have ne: "sds \<noteq> []"
        by (auto simp: create_project_def)
      from assms name descr sds ne have val: "validate_steps db sds = None"
        by (cases "validate_steps db sds") (simp_all add: create_project_def)
      from assms name descr sds ne val obtain h
        where h: "Option.bind (step_numbers sds) py_max = Some h"
        by (cases "Option.bind (step_numbers sds) py_max")
           (simp_all add: create_project_def Let_def)
      from assms name descr sds ne val h obtain s2 where
        "create_steps (next_id (map p_id (projects db))) sds
             (db\<lparr>projects := projects db @
                  [\<lparr>p_id = next_id (map p_id (projects db)), project_name = name,
                    description = descr, owner_id = cu, p_status = P_In_Progress,
                    current_step_number = None, updated_at = now\<rparr>]\<rparr>) = Some s2"
        by (cases "create_steps (next_id (map p_id (projects db))) sds
             (db\<lparr>projects := projects db @
                  [\<lparr>p_id = next_id (map p_id (projects db)), project_name = name,
                    description = descr, owner_id = cu, p_status = P_In_Progress,
                    current_step_number = None, updated_at = now\<rparr>]\<rparr>)")
           (simp_all add: create_project_def Let_def)
      with name descr sds ne val h show ?thesis by blast
    qed
  qed
qed

lemma create_project_commits:
  assumes "fst (create_project cu d now db) = Inr v"
  shows "let log = snd (create_project cu d now db); db' = committed_state db log
         in length log = 3
          \<and> projects (log ! 0) = projects db' \<and> project_steps (log ! 0) = project_steps db'
          \<and> workflow_actions (log ! 0) = workflow_actions db
          \<and> notifications (log ! 0) = notifications db
          \<and> workflow_actions (log ! 1) = workflow_actions db'
          \<and> notifications (log ! 1) = notifications db
          \<and> length (workflow_actions db') = Suc (length (workflow_actions db))
          \<and> length (notifications db') = Suc (length (notifications db))"
proof -
  from create_project_success[OF assms] obtain name descr sds h s2 where
    name: "d_project_name d = Some name" and descr: "d_description d = Some descr"
    and sds: "d_steps d = Some sds" and ne: "sds \<noteq> []"
    and val: "validate_steps db sds = None"
    and h: "Option.bind (step_numbers sds) py_max = Some h"
    and s2: "create_steps (next_id (map p_id (projects db))) sds
             (db\<lparr>projects := projects db @
                  [\<lparr>p_id = next_id (map p_id (projects db)), project_name = name,
                    description = descr, owner_id = cu, p_status = P_In_Progress,
                    current_step_number = None, updated_at = now\<rparr>]\<rparr>) = Some s2"
    by blast
  from h obtain ns where ns: "step_numbers sds = Some ns" and mx: "py_max ns = Some h"
    by (cases "step_numbers sds") auto
  from create_steps_numbers[OF s2 ns py_max_in[OF mx]]
  have "\<exists>st \<in> set (project_steps s2).
          s_project_id st = next_id (map p_id (projects db)) \<and> step_number st = h" .
  then obtain hs where hs:
    "find (\<lambda>st. s_project_id st = next_id (map p_id (projects db)) \<and> step_number st = h)
       (project_steps s2) = Some hs"
    by (cases "find (\<lambda>st. s_project_id st = next_id (map p_id (projects db)) \<and> step_number st = h)
       (project_steps s2)") (auto simp: find_None_iff)
  from create_steps_tables[OF s2]
  have tabs: "workflow_actions s2 = workflow_actions db" "notifications s2 = notifications db"
    by simp_all
  show ?thesis
    using name descr sds ne val h s2 hs tabs
    by (simp add: create_project_def Let_def log_action_pair create_notification_pair
          save_project_def save_step_def)
qed

lemma edit_steps_tables:
  "edit_steps p sds s = Inr (p', s') \<Longrightarrow>
     workflow_actions s' = workflow_actions s \<and> notifications s' = notifications s"
  by (auto simp: edit_steps_def split: sum.splits option.splits dest!: replace_steps_tables)

lemma edit_project_commits:
  assumes "fst (edit_project cu pid d now db) = Inr v"
  shows "let log = snd (edit_project cu pid d now db); db' = committed_state db log
         in length log = 2
          \<and> projects (log ! 0) = projects db' \<and> project_steps (log ! 0) = project_steps db'
          \<and> workflow_actions (log ! 0) = workflow_actions db
          \<and> length (workflow_actions db') = Suc (length (workflow_actions db))
          \<and> notifications db' = notifications db"
proof -
  from assms obtain project where po: "project_owner_required cu pid db = Inr project"
    by (cases "project_owner_required cu pid db") (simp_all add: edit_project_def)
  show ?thesis
  proof (cases "d_steps d")
    case None
    with po show ?thesis
      by (simp add: edit_project_def Let_def log_action_pair save_project_def)
  next
    case (Some sds)
    define p2 where "p2 = (case d_description d of
                      None \<Rightarrow> (case d_project_name d of
                      None \<Rightarrow> project
                    | Some name \<Rightarrow> project\<lparr>project_name := name\<rparr>)
                    | Some descr \<Rightarrow> (case d_project_name d of
                      None \<Rightarrow> project
                    | Some name \<Rightarrow> project\<lparr>project_name := name\<rparr>)\<lparr>description := descr\<rparr>)"
    have unfold: "edit_project cu pid d now db =
      (case edit_steps p2 sds db of Inl e \<Rightarrow> (Inl e, [])
       | Inr (p3, s1) \<Rightarrow>
               let project' = p3\<lparr>updated_at := now\<rparr>;
                   sess1 = commit (save_project project' s1, []);
                   sess2 = log_action (p_id project') cu Edit None None
                             (Some ''Project edited'') now sess1
               in (Inr (to_dict (fst sess2) project'), snd sess2))"
      using po Some by (simp add: edit_project_def Let_def p2_def)
    from assms obtain p3 s1 where x: "edit_steps p2 sds db = Inr (p3, s1)"
      unfolding unfold by (cases "edit_steps p2 sds db") auto
    from edit_steps_tables[OF x]
    have tabs: "workflow_actions s1 = workflow_actions db" "notifications s1 = notifications db"
      by simp_all
    show ?thesis
      unfolding unfold x using tabs
      by (simp add: Let_def log_action_pair save_project_def)
  qed
qed

lemma validate_steps_not_found:
  assumes "list_all step_data_complete sds"
    and "\<exists>sd \<in> set sds. \<exists>u. sd_assigned_user_id sd = Some u \<and> get_user_row s u = None"
  shows "\<exists>u. validate_steps s sds = Some (User_not_found u) \<and> get_user_row s u = None"
  using assms
proof (induction sds)
  case Nil
  then show ?case by simp
next
  case (Cons sd sds)
  from Cons.prems(1) have c: "step_data_complete sd" and cs: "list_all step_data_complete sds"
    by simp_all
  from c obtain u0 where u0: "sd_assigned_user_id sd = Some u0"
    by (auto simp: step_data_complete_def)
  show ?case
  proof (cases "get_user_row s u0")
    case None
    with c u0 show ?thesis by simp
  next
    case (Some usr)
    with Cons.prems(2) u0
    have "\<exists>sd \<in> set sds. \<exists>u. sd_assigned_user_id sd = Some u \<and> get_user_row s u = None"
      by auto
    from Cons.IH[OF cs this] c u0 Some show ?thesis by simp
  qed
qed

text \<open>
  What \<^verbatim>\<open>edit_project\<close> does with a step list, for every request: the project's steps
  are the new ones, all Pending, and the current step number is their maximum.
\<close>

lemma add_step_row:
  "add_step pid sd s = Some s' \<Longrightarrow>
     \<exists>st. project_steps s' = project_steps s @ [st] \<and> s_project_id st = pid \<and>
          s_status st = Pending \<and> sd_step_number sd = Some (step_number st)"
  by (auto simp: add_step_def split: option.splits)

lemma replace_steps_rows:
  "replace_steps pid sds s = Inr s' \<Longrightarrow>
     \<exists>new. project_steps s' = project_steps s @ new \<and>
           (\<forall>st \<in> set new. s_project_id st = pid \<and> s_status st = Pending) \<and>
           step_numbers sds = Some (map step_number new)"
proof (induction sds arbitrary: s)
  case Nil
  then show ?case by simp
next
  case (Cons sd sds)
  from Cons.prems obtain s1 where a: "add_step pid sd s = Some s1"
    and r: "replace_steps pid sds s1 = Inr s'"
    by (auto split: option.splits if_splits)
  from add_step_row[OF a] obtain st where st: "project_steps s1 = project_steps s @ [st]"
    "s_project_id st = pid" "s_status st = Pending" "sd_step_number sd = Some (step_number st)"
    by blast
  from Cons.IH[OF r] obtain new where new: "project_steps s' = project_steps s1 @ new"
    "\<forall>st \<in> set new. s_project_id st = pid \<and> s_status st = Pending"
    "step_numbers sds = Some (map step_number new)"
    by blast
  have "project_steps s' = project_steps s @ (st # new)" using st new by simp
  moreover have "\<forall>x \<in> set (st # new). s_project_id x = pid \<and> s_status x = Pending"
    using st new by simp
  moreover have "step_numbers (sd # sds) = Some (map step_number (st # new))"
    using st new by simp
  ultimately show ?case by blast
qed

lemma edit_steps_rows:
  assumes "edit_steps p sds s = Inr (p', s')"
  shows "\<exists>new. steps_of s' (p_id p) = new \<and>
           (\<forall>st \<in> set new. s_status st = Pending) \<and>
           step_numbers sds = Some (map step_number new) \<and>
           py_max (map step_number new) = current_step_number p' \<and>
           p' = p\<lparr>current_step_number := current_step_number p'\<rparr> \<and>
           projects s' = projects s"
proof -
  from assms obtain s1 where r: "replace_steps (p_id p) sds
             (s\<lparr>project_steps :=
                  filter (\<lambda>st. s_project_id st \<noteq> p_id p) (project_steps s)\<rparr>) = Inr s1"
    by (auto simp: edit_steps_def split: sum.splits)
  from assms r obtain h where h: "Option.bind (step_numbers sds) py_max = Some h"
    and p': "p' = p\<lparr>current_step_number := Some h\<rparr>" and s': "s' = s1"
    by (auto simp: edit_steps_def split: option.splits)
  from replace_steps_rows[OF r] obtain new where new:
    "project_steps s1 = filter (\<lambda>st. s_project_id st \<noteq> p_id p) (project_steps s) @ new"
    "\<forall>st \<in> set new. s_project_id st = p_id p \<and> s_status st = Pending"
    "step_numbers sds = Some (map step_number new)"
    by auto
  have "steps_of s' (p_id p) = new"
    using new(1,2) by (simp add: steps_of_def s' filter_id_conv)
  moreover from h new(3) have "py_max (map step_number new) = Some h" by simp
  moreover from replace_steps_tables[OF r] have "projects s' = projects s" by (simp add: s')
  ultimately show ?thesis using new(2,3) p' by simp
qed

lemma edit_project_steps_pending:
  assumes ok: "fst (edit_project cu pid d now db) = Inr v"
    and sds: "d_steps d = Some sds"
  shows "let db' = committed_state db (snd (edit_project cu pid d now db))
         in (\<forall>st \<in> set (steps_of db' pid). s_status st = Pending)
          \<and> step_numbers sds = Some (map step_number (steps_of db' pid))
          \<and> (\<exists>p'. get_project_row db' pid = Some p' \<and>
                   current_step_number p' = py_max (map step_number (steps_of db' pid)))"
proof -
  from ok obtain project where po: "project_owner_required cu pid db = Inr project"
    by (cases "project_owner_required cu pid db") (simp_all add: edit_project_def)
  then have row: "get_project_row db pid = Some project"
    by (auto simp: project_owner_required_def split: option.splits if_splits)
  have pid: "p_id project = pid" by (rule get_project_row_id[OF row])
  define p2 where "p2 = (case d_description d of
                      None \<Rightarrow> (case d_project_name d of
                      None \<Rightarrow> project
                    | Some name \<Rightarrow> project\<lparr>project_name := name\<rparr>)
                    | Some descr \<Rightarrow> (case d_project_name d of
                      None \<Rightarrow> project
                    | Some name \<Rightarrow> project\<lparr>project_name := name\<rparr>)\<lparr>description := descr\<rparr>)"
  have p2id: "p_id p2 = pid" using pid by (simp add: p2_def split: option.splits)
  have unfold: "edit_project cu pid d now db =
      (case edit_steps p2 sds db of Inl e \<Rightarrow> (Inl e, [])
       | Inr (p3, s1) \<Rightarrow>
               let project' = p3\<lparr>updated_at := now\<rparr>;
                   sess1 = commit (save_project project' s1, []);
                   sess2 = log_action (p_id project') cu Edit None None
                             (Some ''Project edited'') now sess1
               in (Inr (to_dict (fst sess2) project'), snd sess2))"
    using po sds by (simp add: edit_project_def Let_def p2_def)
  from ok obtain p3 s1 where x: "edit_steps p2 sds db = Inr (p3, s1)"
    unfolding unfold by (cases "edit_steps p2 sds db") auto
  from edit_steps_rows[OF x] have rows:
    "\<forall>st \<in> set (steps_of s1 pid). s_status st = Pending"
    "step_numbers sds = Some (map step_number (steps_of s1 pid))"
    "py_max (map step_number (steps_of s1 pid)) = current_step_number p3"
    "p_id p3 = pid" "projects s1 = projects db"
    using p2id by (auto, metis project.select_convs(1) project.surjective project.update_convs(6))
  have final: "committed_state db (snd (edit_project cu pid d now db)) =
      (save_project (p3\<lparr>updated_at := now\<rparr>) s1)
        \<lparr>workflow_actions := workflow_actions (committed_state db (snd (edit_project cu pid d now db)))\<rparr>"
    unfolding unfold x by (simp add: Let_def log_action_pair)
  have so: "steps_of (committed_state db (snd (edit_project cu pid d now db))) pid = steps_of s1 pid"
    by (subst final) (simp add: steps_of_def save_project_def)
  have "get_project_row (save_project (p3\<lparr>updated_at := now\<rparr>) s1) pid = Some (p3\<lparr>updated_at := now\<rparr>)"
    using rows(4,5) row by (simp add: get_project_row_save) (simp add: get_project_row_def)
  then have gp: "get_project_row (committed_state db (snd (edit_project cu pid d now db))) pid
                 = Some (p3\<lparr>updated_at := now\<rparr>)"
    by (subst final) simp
  show ?thesis
    unfolding Let_def so using rows(1,2,3) gp by simp
qed

text \<open>
  The four routes that call \<^verbatim>\<open>log_action\<close> append exactly one audit row, with the
  acting user, the project and the action kind.
\<close>

lemma forward_step_audit:
  assumes "fst (forward_step cu pid data now db) = Inr v"
  shows "let acts = workflow_actions (committed_state db (snd (forward_step cu pid data now db)))
         in butlast acts = workflow_actions db
          \<and> a_user_id (last acts) = cu \<and> a_project_id (last acts) = pid
          \<and> (action (last acts) = Forward \<or> action (last acts) = Complete)"
proof -
  from assms obtain p where p: "get_project_row db pid = Some p"
    by (auto simp: forward_step_def split: option.splits)
  from assms p obtain cs where cs: "get_current_step db p = Some cs"
    by (auto simp: forward_step_def split: option.splits)
  from assms p cs have uid: "assigned_user_id cs = cu"
    by (auto simp: forward_step_def split: if_splits)
  have pid: "p_id p = pid" by (rule get_project_row_id[OF p])
  show ?thesis
    using p cs uid pid
    by (cases "get_next_step (save_step (cs\<lparr>s_status := Completed, completed_at := Some now\<rparr>) db) p")
       (simp_all add: forward_step_def Let_def log_action_pair create_notification_pair
          save_step_def save_project_def)
qed

lemma send_back_step_audit:
  assumes "fst (send_back_step cu pid data now db) = Inr v"
  shows "let acts = workflow_actions (committed_state db (snd (send_back_step cu pid data now db)))
         in butlast acts = workflow_actions db
          \<and> a_user_id (last acts) = cu \<and> a_project_id (last acts) = pid
          \<and> action (last acts) = Send_Back
          \<and> comments (last acts) = (case data of None \<Rightarrow> None | Some b \<Rightarrow> b_comments b)"
proof -
  from assms obtain p where p: "get_project_row db pid = Some p"
    by (auto simp: send_back_step_def split: option.splits)
  from assms p obtain cs where cs: "get_current_step db p = Some cs"
    by (auto simp: send_back_step_def split: option.splits)
  from assms p cs have uid: "assigned_user_id cs = cu"
    by (auto simp: send_back_step_def split: if_splits)
  from assms p cs uid obtain c where c: "(case data of None \<Rightarrow> None | Some b \<Rightarrow> b_comments b) = Some c"
    by (auto simp: send_back_step_def split: option.splits)
  from assms p cs uid c have ne: "c \<noteq> []"
    by (auto simp: send_back_step_def split: if_splits)
  from assms p cs uid c ne obtain ps where ps: "get_previous_step db p = Some ps"
    by (auto simp: send_back_step_def split: option.splits)
  have pid: "p_id p = pid" by (rule get_project_row_id[OF p])
  show ?thesis
    using p cs uid c ne ps pid
    by (simp add: send_back_step_def Let_def log_action_pair create_notification_pair
          save_step_def save_project_def)
qed

lemma create_project_audit:
  assumes "fst (create_project cu d now db) = Inr v"
  shows "let acts = workflow_actions (committed_state db (snd (create_project cu d now db)))
         in butlast acts = workflow_actions db
          \<and> a_user_id (last acts) = cu
          \<and> a_project_id (last acts) = next_id (map p_id (projects db))
          \<and> action (last acts) = Create"
proof -
  from create_project_success[OF assms] obtain name descr sds h s2 where
    name: "d_project_name d = Some name" and descr: "d_description d = Some descr"
    and sds: "d_steps d = Some sds" and ne: "sds \<noteq> []"
    and val: "validate_steps db sds = None"
    and h: "Option.bind (step_numbers sds) py_max = Some h"
    and s2: "create_steps (next_id (map p_id (projects db))) sds
             (db\<lparr>projects := projects db @
                  [\<lparr>p_id = next_id (map p_id (projects db)), project_name = name,
                    description = descr, owner_id = cu, p_status = P_In_Progress,
                    current_step_number = None, updated_at = now\<rparr>]\<rparr>) = Some s2"
    by blast
  from create_steps_tables[OF s2]
  have tabs: "workflow_actions s2 = workflow_actions db" "notifications s2 = notifications db"
    by simp_all
  show ?thesis
    using name descr sds ne val h s2 tabs
    by (simp add: create_project_def Let_def log_action_pair create_notification_pair
          save_project_def save_step_def split: option.splits)
qed

lemma edit_project_audit:
  assumes "fst (edit_project cu pid d now db) = Inr v"
  shows "let acts = workflow_actions (committed_state db (snd (edit_project cu pid d now db)))
         in butlast acts = workflow_actions db
          \<and> a_user_id (last acts) = cu \<and> a_project_id (last acts) = pid
          \<and> action (last acts) = Edit"
proof -
  from assms obtain project where po: "project_owner_required cu pid db = Inr project"
    by (cases "project_owner_required cu pid db") (simp_all add: edit_project_def)
  then have row: "get_project_row db pid = Some project"
    by (auto simp: project_owner_required_def split: option.splits if_splits)
  have pid: "p_id project = pid" by (rule get_project_row_id[OF row])
  show ?thesis
  proof (cases "d_steps d")
    case None
    with po pid show ?thesis
      by (simp add: edit_project_def Let_def log_action_pair save_project_def
            split: option.splits)
  next
    case (Some sds)
    define p2 where "p2 = (case d_description d of
                      None \<Rightarrow> (case d_project_name d of
                      None \<Rightarrow> project
                    | Some name \<Rightarrow> project\<lparr>project_name := name\<rparr>)
                    | Some descr \<Rightarrow> (case d_project_name d of
                      None \<Rightarrow> project
                    | Some name \<Rightarrow> project\<lparr>project_name := name\<rparr>)\<lparr>description := descr\<rparr>)"
    have p2id: "p_id p2 = pid" using pid by (simp add: p2_def split: option.splits)
    have unfold: "edit_project cu pid d now db =
      (case edit_steps p2 sds db of Inl e \<Rightarrow> (Inl e, [])
       | Inr (p3, s1) \<Rightarrow>
               let project' = p3\<lparr>updated_at := now\<rparr>;
                   sess1 = commit (save_project project' s1, []);
                   sess2 = log_action (p_id project') cu Edit None None
                             (Some ''Project edited'') now sess1
               in (Inr (to_dict (fst sess2) project'), snd sess2))"
      using po Some by (simp add: edit_project_def Let_def p2_def)
    from assms obtain p3 s1 where x: "edit_steps p2 sds db = Inr (p3, s1)"
      unfolding unfold by (cases "edit_steps p2 sds db") auto
    from edit_steps_tables[OF x]
    have tabs: "workflow_actions s1 = workflow_actions db" by simp
    from x have "p_id p3 = pid"
      using p2id by (auto simp: edit_steps_def split: sum.splits option.splits)
    then show ?thesis
      unfolding unfold x using tabs
      by (simp add: Let_def log_action_pair save_project_def)
  qed
qed

section \<open>The example states are reachable\<close>

lemma ex_db1_created:
  "committed_state ex_db0 (snd (create_project 1 ex_data 10 ex_db0)) = ex_db1"
  by code_simp

lemma ex_db2_forwarded:
  "committed_state ex_db1 (snd (forward_step 2 1 None 20 ex_db1)) = ex_db2"
  by code_simp

lemma ex_db3_forwarded:
  "committed_state ex_db2 (snd (forward_step 3 1 None 30 ex_db2)) = ex_db3"
  by code_simp

lemma ex_db_bare_committed:
  "snd (create_project 1 ex_data 10 ex_db0) ! 0 = ex_db_bare"
  by code_simp

lemma ex_db_zero_reached:
  "run_calls 1 [Forward_call 2 None 20]
     (committed_state ex_db0 (snd (create_project 1 ex_data_zero 10 ex_db0))) = ex_db_zero"
  by code_simp

section \<open>Forward\<close>

text \<open>
  Claim C2. Let the project have a current step and let its assignee call Forward. The
  current step is the row \<^verbatim>\<open>get_current_step\<close> returns. Then that step becomes Completed
  with the completion time stamped. If no step of the project has a smaller number (the
  current step is the minimum-numbered one), the project row becomes Completed with no
  current step number. Otherwise the project's status is untouched and the current step
  number becomes the greatest step number below the old one, and the step chosen with
  that number becomes In Progress. In both cases the project row's \<open>updated_at\<close> becomes
  the time of the request. Step ids are primary keys. The witness runs Forward on project 1
  of two projects whose step numbers interleave (5 moves to 3, not to the 4 of project 2),
  and on the last step of the example project.
\<close>

theorem forward_step_transition:
  assumes pk: "step_ids_unique db"
    and p: "get_project_row db pid = Some p"
    and cs: "get_current_step db p = Some cs"
    and uid: "assigned_user_id cs = uid"
  shows "let db' = committed_state db (snd (forward_step uid pid data now db));
             lower = filter (\<lambda>st. s_project_id st = pid \<and> step_number st < step_number cs)
                       (project_steps db)
         in get_step_row db' (s_id cs) = Some (cs\<lparr>s_status := Completed, completed_at := Some now\<rparr>)
          \<and> (if lower = []
             then get_project_row db' pid =
                    Some (p\<lparr>p_status := P_Completed, current_step_number := None, updated_at := now\<rparr>)
             else \<exists>ns \<in> set lower.
                    (\<forall>st \<in> set lower. step_number st \<le> step_number ns)
                  \<and> get_project_row db' pid =
                      Some (p\<lparr>current_step_number := Some (step_number ns), updated_at := now\<rparr>)
                  \<and> get_step_row db' (s_id ns) = Some (ns\<lparr>s_status := In_Progress\<rparr>))"
proof -
  define cs' where "cs' = cs\<lparr>s_status := Completed, completed_at := Some now\<rparr>"
  define lower where "lower = filter (\<lambda>st. step_number st < step_number cs) (steps_of db pid)"
  have lower_raw: "lower = filter (\<lambda>st. s_project_id st = pid \<and> step_number st < step_number cs)
                             (project_steps db)"
    by (simp add: lower_def steps_of_def)
  define db' where "db' = committed_state db (snd (forward_step uid pid data now db))"
  have pid: "p_id p = pid" by (rule get_project_row_id[OF p])
  from get_current_step_Some[OF cs]
  have mem: "cs \<in> set (project_steps db)" and csn: "current_step_number p = Some (step_number cs)"
    and nz: "step_number cs \<noteq> 0" by auto
  have row_cs: "get_step_row db (s_id cs) = Some cs"
    by (rule get_step_row_member[OF pk mem])
  have nxt: "get_next_step (save_step cs' db) p = get_next_step db p"
    by (rule get_next_step_save_current[OF pk cs]) (simp_all add: cs'_def)
  have state: "db' = (case get_next_step db p of
           Some ns \<Rightarrow>
             (save_step (ns\<lparr>s_status := In_Progress\<rparr>)
                (save_project (p\<lparr>current_step_number := Some (step_number ns), updated_at := now\<rparr>) (save_step cs' db)))
               \<lparr>workflow_actions := workflow_actions (committed_state db (snd (forward_step uid pid data now db))),
                notifications := notifications (committed_state db (snd (forward_step uid pid data now db)))\<rparr>
         | None \<Rightarrow>
             (save_project (p\<lparr>p_status := P_Completed, current_step_number := None, updated_at := now\<rparr>) (save_step cs' db))
               \<lparr>workflow_actions := workflow_actions (committed_state db (snd (forward_step uid pid data now db))),
                notifications := notifications (committed_state db (snd (forward_step uid pid data now db)))\<rparr>)"
    unfolding db'_def forward_step_state[OF p cs uid] Let_def cs'_def[symmetric] nxt
    by (simp split: option.splits)
  show ?thesis
  proof (cases "get_next_step db p")
    case None
    then have "lower = []"
      using get_next_step_None[OF csn nz, of db] by (simp add: lower_def pid)
    moreover have "get_step_row db' (s_id cs) = Some cs'"
      using None row_cs by (simp add: state get_step_row_save cs'_def)
    moreover have "get_project_row db' pid = Some (p\<lparr>p_status := P_Completed, current_step_number := None, updated_at := now\<rparr>)"
      using None p pid by (simp add: state get_project_row_save)
    ultimately show ?thesis
      by (simp add: Let_def db'_def[symmetric] lower_raw[symmetric] cs'_def)
  next
    case (Some ns)
    from get_next_step_Some[OF Some csn]
    have ns_in: "ns \<in> set lower" and ns_max: "\<forall>st \<in> set lower. step_number st \<le> step_number ns"
      by (simp_all add: lower_def pid)
    then have ne: "lower \<noteq> []" by auto
    have ns_mem: "ns \<in> set (project_steps db)" and lt: "step_number ns < step_number cs"
      using ns_in by (auto simp: lower_def steps_of_def)
    have row_ns: "get_step_row db (s_id ns) = Some ns"
      by (rule get_step_row_member[OF pk ns_mem])
    have neq: "s_id ns \<noteq> s_id cs"
    proof
      assume "s_id ns = s_id cs"
      with row_ns row_cs have "ns = cs" by (metis option.inject)
      with lt show False by simp
    qed
    have "get_step_row db' (s_id cs) = Some cs'"
      using Some row_cs neq by (simp add: state get_step_row_save cs'_def)
    moreover have "get_project_row db' pid = Some (p\<lparr>current_step_number := Some (step_number ns), updated_at := now\<rparr>)"
      using Some p pid by (simp add: state get_project_row_save)
    moreover have "get_step_row db' (s_id ns) = Some (ns\<lparr>s_status := In_Progress\<rparr>)"
      using Some row_ns neq by (simp add: state get_step_row_save cs'_def)
    ultimately show ?thesis
      using ne ns_in ns_max
      by (auto simp add: Let_def db'_def[symmetric] lower_raw[symmetric] cs'_def)
  qed
qed

theorem forward_step_transition_witness:
  "step_ids_unique ex_pair1
   \<and> get_project_row ex_pair1 1 = Some (ex_project P_In_Progress (Some 5) 10)
   \<and> get_current_step ex_pair1 (ex_project P_In_Progress (Some 5) 10) =
       Some (ex_step 1 5 ''Draft'' 2 In_Progress None)
   \<and> assigned_user_id (ex_step 1 5 ''Draft'' 2 In_Progress None) = 2
   \<and> (let db' = committed_state ex_pair1 (snd (forward_step 2 1 None 20 ex_pair1));
             lower = filter (\<lambda>st. s_project_id st = 1 \<and> step_number st < step_number (ex_step 1 5 ''Draft'' 2 In_Progress None))
                       (project_steps ex_pair1)
         in get_step_row db' (s_id (ex_step 1 5 ''Draft'' 2 In_Progress None)) = Some ((ex_step 1 5 ''Draft'' 2 In_Progress None)\<lparr>s_status := Completed, completed_at := Some 20\<rparr>)
          \<and> (if lower = []
             then get_project_row db' 1 =
                    Some ((ex_project P_In_Progress (Some 5) 10)\<lparr>p_status := P_Completed, current_step_number := None, updated_at := 20\<rparr>)
             else \<exists>ns \<in> set lower.
                    (\<forall>st \<in> set lower. step_number st \<le> step_number ns)
                  \<and> get_project_row db' 1 =
                      Some ((ex_project P_In_Progress (Some 5) 10)\<lparr>current_step_number := Some (step_number ns), updated_at := 20\<rparr>)
                  \<and> get_step_row db' (s_id ns) = Some (ns\<lparr>s_status := In_Progress\<rparr>)))
   \<and> map (\<lambda>p. (p_id p, p_status p, current_step_number p, updated_at p))
         (projects (committed_state ex_pair1 (snd (forward_step 2 1 None 20 ex_pair1)))) =
       [(1, P_In_Progress, Some 3, 20), (2, P_In_Progress, Some 4, 11)]
   \<and> map (\<lambda>st. (s_id st, s_project_id st, step_number st, s_status st, completed_at st))
         (project_steps (committed_state ex_pair1 (snd (forward_step 2 1 None 20 ex_pair1)))) =
       [(1, 1, 5, Completed, Some 20), (2, 1, 3, In_Progress, None), (3, 1, 1, Pending, None),
        (4, 2, 4, In_Progress, None), (5, 2, 2, Pending, None)]
   \<and> step_ids_unique ex_db3
   \<and> get_project_row ex_db3 1 = Some (ex_project P_In_Progress (Some 1) 30)
   \<and> get_current_step ex_db3 (ex_project P_In_Progress (Some 1) 30) =
       Some (ex_step 3 1 ''Publish'' 4 In_Progress None)
   \<and> assigned_user_id (ex_step 3 1 ''Publish'' 4 In_Progress None) = 4
   \<and> (let db' = committed_state ex_db3 (snd (forward_step 4 1 None 40 ex_db3));
             lower = filter (\<lambda>st. s_project_id st = 1 \<and> step_number st < step_number (ex_step 3 1 ''Publish'' 4 In_Progress None))
                       (project_steps ex_db3)
         in get_step_row db' (s_id (ex_step 3 1 ''Publish'' 4 In_Progress None)) = Some ((ex_step 3 1 ''Publish'' 4 In_Progress None)\<lparr>s_status := Completed, completed_at := Some 40\<rparr>)
          \<and> (if lower = []
             then get_project_row db' 1 =
                    Some ((ex_project P_In_Progress (Some 1) 30)\<lparr>p_status := P_Completed, current_step_number := None, updated_at := 40\<rparr>)
             else \<exists>ns \<in> set lower.
                    (\<forall>st \<in> set lower. step_number st \<le> step_number ns)
                  \<and> get_project_row db' 1 =
                      Some ((ex_project P_In_Progress (Some 1) 30)\<lparr>current_step_number := Some (step_number ns), updated_at := 40\<rparr>)
                  \<and> get_step_row db' (s_id ns) = Some (ns\<lparr>s_status := In_Progress\<rparr>)))
   \<and> projects (committed_state ex_db3 (snd (forward_step 4 1 None 40 ex_db3))) =
       [ex_project P_Completed None 40]
   \<and> map (\<lambda>st. (s_id st, step_number st, s_status st, completed_at st))
         (project_steps (committed_state ex_db3 (snd (forward_step 4 1 None 40 ex_db3)))) =
       [(1, 3, Completed, Some 20), (2, 2, Completed, Some 30), (3, 1, Completed, Some 40)]"
proof -
  have a1: "step_ids_unique ex_pair1" by code_simp
  have a2: "get_project_row ex_pair1 1 = Some (ex_project P_In_Progress (Some 5) 10)"
    by code_simp
  have a3: "get_current_step ex_pair1 (ex_project P_In_Progress (Some 5) 10) =
              Some (ex_step 1 5 ''Draft'' 2 In_Progress None)" by code_simp
  have a4: "assigned_user_id (ex_step 1 5 ''Draft'' 2 In_Progress None) = 2" by code_simp
  have a5: "map (\<lambda>p. (p_id p, p_status p, current_step_number p, updated_at p))
         (projects (committed_state ex_pair1 (snd (forward_step 2 1 None 20 ex_pair1)))) =
       [(1, P_In_Progress, Some 3, 20), (2, P_In_Progress, Some 4, 11)]" by code_simp
  have a6: "map (\<lambda>st. (s_id st, s_project_id st, step_number st, s_status st, completed_at st))
         (project_steps (committed_state ex_pair1 (snd (forward_step 2 1 None 20 ex_pair1)))) =
       [(1, 1, 5, Completed, Some 20), (2, 1, 3, In_Progress, None), (3, 1, 1, Pending, None),
        (4, 2, 4, In_Progress, None), (5, 2, 2, Pending, None)]" by code_simp
  have b1: "step_ids_unique ex_db3" by code_simp
  have b2: "get_project_row ex_db3 1 = Some (ex_project P_In_Progress (Some 1) 30)"
    by code_simp
  have b3: "get_current_step ex_db3 (ex_project P_In_Progress (Some 1) 30) =
              Some (ex_step 3 1 ''Publish'' 4 In_Progress None)" by code_simp
  have b4: "assigned_user_id (ex_step 3 1 ''Publish'' 4 In_Progress None) = 4" by code_simp
  have b5: "projects (committed_state ex_db3 (snd (forward_step 4 1 None 40 ex_db3))) =
       [ex_project P_Completed None 40]" by code_simp
  have b6: "map (\<lambda>st. (s_id st, step_number st, s_status st, completed_at st))
         (project_steps (committed_state ex_db3 (snd (forward_step 4 1 None 40 ex_db3)))) =
       [(1, 3, Completed, Some 20), (2, 2, Completed, Some 30), (3, 1, Completed, Some 40)]"
    by code_simp
  note a = forward_step_transition[OF a1 a2 a3 a4, of None 20]
  note b = forward_step_transition[OF b1 b2 b3 b4, of None 40]
  show ?thesis by (intro conjI a1 a2 a3 a4 a a5 a6 b1 b2 b3 b4 b b5 b6)
qed

section \<open>SendBack\<close>

text \<open>
  Claim C3. Let the project have a current step, let its assignee call SendBack with a
  non-empty comment, and let some step of the project have a greater number. Then the
  previous step is a step with the least number above the current one; the current step
  becomes Sent Back and its completion time is not touched; the previous step becomes
  In Progress with its completion time cleared; the current step number becomes the
  previous step's number; the audit log grows by exactly one \<open>Send_Back\<close> row carrying
  the comment; and the notifications grow by exactly one row, addressed to the previous
  step's assignee, whose message ends with the comment. The project row's \<open>updated_at\<close>
  becomes the time of the request. Step ids are primary keys. The witness runs SendBack on
  project 1 of two projects whose step numbers interleave (3 goes back to 5, not to the 4
  of project 2).
\<close>

theorem send_back_step_transition:
  assumes pk: "step_ids_unique db"
    and p: "get_project_row db pid = Some p"
    and cs: "get_current_step db p = Some cs"
    and uid: "assigned_user_id cs = uid"
    and data: "data = Some b" "b_comments b = Some c" "c \<noteq> []"
    and higher: "filter (\<lambda>st. s_project_id st = pid \<and> step_number cs < step_number st)
                   (project_steps db) \<noteq> []"
  shows "let db' = committed_state db (snd (send_back_step uid pid data now db));
             higher = filter (\<lambda>st. s_project_id st = pid \<and> step_number cs < step_number st)
                        (project_steps db)
         in \<exists>ps \<in> set higher.
              (\<forall>st \<in> set higher. step_number ps \<le> step_number st)
            \<and> get_step_row db' (s_id cs) = Some (cs\<lparr>s_status := Sent_Back\<rparr>)
            \<and> get_step_row db' (s_id ps) =
                 Some (ps\<lparr>s_status := In_Progress, completed_at := None\<rparr>)
            \<and> get_project_row db' pid = Some (p\<lparr>current_step_number := Some (step_number ps), updated_at := now\<rparr>)
            \<and> workflow_actions db' = workflow_actions db @
                 [\<lparr>a_id = next_id (map a_id (workflow_actions db)), a_project_id = pid,
                   a_step_id = Some (s_id cs), a_user_id = uid, action = Send_Back,
                   a_step_number = Some (step_number cs), comments = Some c, timestamp = now\<rparr>]
            \<and> notifications db' = notifications db @
                 [\<lparr>n_id = next_id (map n_id (notifications db)),
                   n_user_id = assigned_user_id ps, n_project_id = Some pid,
                   message = ''Project sent back to you: '' @ project_name p @
                             ''. Step '' @ str_int (step_number ps) @ '': '' @ step_name ps @
                             ''. Reason: '' @ c,
                   is_read = False\<rparr>]"
proof -
  define hs where "hs = filter (\<lambda>st. step_number cs < step_number st) (steps_of db pid)"
  have hs_raw: "hs = filter (\<lambda>st. s_project_id st = pid \<and> step_number cs < step_number st)
                       (project_steps db)"
    by (simp add: hs_def steps_of_def)
  have higher': "hs \<noteq> []" unfolding hs_raw by (rule higher)
  define db' where "db' = committed_state db (snd (send_back_step uid pid data now db))"
  have pid: "p_id p = pid" by (rule get_project_row_id[OF p])
  from get_current_step_Some[OF cs]
  have mem: "cs \<in> set (project_steps db)" and csn: "current_step_number p = Some (step_number cs)"
    and nz: "step_number cs \<noteq> 0" by auto
  have row_cs: "get_step_row db (s_id cs) = Some cs"
    by (rule get_step_row_member[OF pk mem])
  obtain ps where prev: "get_previous_step db p = Some ps"
    using higher' get_previous_step_None[OF csn nz, of db] by (auto simp: pid hs_def)
  from get_previous_step_Some[OF prev csn]
  have ps_in: "ps \<in> set hs" and ps_min: "\<forall>st \<in> set hs. step_number ps \<le> step_number st"
    by (simp_all add: hs_def pid)
  have ps_mem: "ps \<in> set (project_steps db)" and lt: "step_number cs < step_number ps"
    using ps_in by (auto simp: hs_def steps_of_def)
  have row_ps: "get_step_row db (s_id ps) = Some ps"
    by (rule get_step_row_member[OF pk ps_mem])
  have neq: "s_id ps \<noteq> s_id cs"
  proof
    assume "s_id ps = s_id cs"
    with row_ps row_cs have "ps = cs" by (metis option.inject)
    with lt show False by simp
  qed
  note st = send_back_step_state[OF p cs uid data prev, of now]
  have "get_step_row db' (s_id cs) = Some (cs\<lparr>s_status := Sent_Back\<rparr>)"
    using row_cs neq by (simp add: db'_def st Let_def get_step_row_save)
  moreover have "get_step_row db' (s_id ps) = Some (ps\<lparr>s_status := In_Progress, completed_at := None\<rparr>)"
    using row_ps neq by (simp add: db'_def st Let_def get_step_row_save)
  moreover have "get_project_row db' pid = Some (p\<lparr>current_step_number := Some (step_number ps), updated_at := now\<rparr>)"
    using p pid by (simp add: db'_def st Let_def get_project_row_save)
  moreover have "workflow_actions db' = workflow_actions db @
                 [\<lparr>a_id = next_id (map a_id (workflow_actions db)), a_project_id = pid,
                   a_step_id = Some (s_id cs), a_user_id = uid, action = Send_Back,
                   a_step_number = Some (step_number cs), comments = Some c, timestamp = now\<rparr>]"
    by (simp add: db'_def st Let_def)
  moreover have "notifications db' = notifications db @
                 [\<lparr>n_id = next_id (map n_id (notifications db)),
                   n_user_id = assigned_user_id ps, n_project_id = Some pid,
                   message = ''Project sent back to you: '' @ project_name p @
                             ''. Step '' @ str_int (step_number ps) @ '': '' @ step_name ps @
                             ''. Reason: '' @ c,
                   is_read = False\<rparr>]"
    by (simp add: db'_def st Let_def)
  ultimately show ?thesis
    unfolding Let_def db'_def[symmetric] hs_raw[symmetric]
    using ps_in ps_min by blast
qed

theorem send_back_step_transition_witness:
  "step_ids_unique ex_pair2
   \<and> get_project_row ex_pair2 1 = Some (ex_project P_In_Progress (Some 3) 20)
   \<and> get_current_step ex_pair2 (ex_project P_In_Progress (Some 3) 20) =
       Some (ex_step 2 3 ''Review'' 3 In_Progress None)
   \<and> assigned_user_id (ex_step 2 3 ''Review'' 3 In_Progress None) = 3
   \<and> Some \<lparr>b_comments = Some ''redo draft''\<rparr> = Some \<lparr>b_comments = Some ''redo draft''\<rparr>
   \<and> b_comments \<lparr>b_comments = Some ''redo draft''\<rparr> = Some ''redo draft''
   \<and> ''redo draft'' \<noteq> []
   \<and> filter (\<lambda>st. s_project_id st = 1 \<and>
                    step_number (ex_step 2 3 ''Review'' 3 In_Progress None) < step_number st)
        (project_steps ex_pair2) \<noteq> []
   \<and> (let db' = committed_state ex_pair2 (snd (send_back_step 3 1 (Some \<lparr>b_comments = Some ''redo draft''\<rparr>) 30 ex_pair2));
             higher = filter (\<lambda>st. s_project_id st = 1 \<and> step_number (ex_step 2 3 ''Review'' 3 In_Progress None) < step_number st)
                        (project_steps ex_pair2)
         in \<exists>ps \<in> set higher.
              (\<forall>st \<in> set higher. step_number ps \<le> step_number st)
            \<and> get_step_row db' (s_id (ex_step 2 3 ''Review'' 3 In_Progress None)) = Some ((ex_step 2 3 ''Review'' 3 In_Progress None)\<lparr>s_status := Sent_Back\<rparr>)
            \<and> get_step_row db' (s_id ps) =
                 Some (ps\<lparr>s_status := In_Progress, completed_at := None\<rparr>)
            \<and> get_project_row db' 1 = Some ((ex_project P_In_Progress (Some 3) 20)\<lparr>current_step_number := Some (step_number ps), updated_at := 30\<rparr>)
            \<and> workflow_actions db' = workflow_actions ex_pair2 @
                 [\<lparr>a_id = next_id (map a_id (workflow_actions ex_pair2)), a_project_id = 1,
                   a_step_id = Some (s_id (ex_step 2 3 ''Review'' 3 In_Progress None)), a_user_id = 3, action = Send_Back,
                   a_step_number = Some (step_number (ex_step 2 3 ''Review'' 3 In_Progress None)), comments = Some ''redo draft'', timestamp = 30\<rparr>]
            \<and> notifications db' = notifications ex_pair2 @
                 [\<lparr>n_id = next_id (map n_id (notifications ex_pair2)),
                   n_user_id = assigned_user_id ps, n_project_id = Some 1,
                   message = ''Project sent back to you: '' @ project_name (ex_project P_In_Progress (Some 3) 20) @
                             ''. Step '' @ str_int (step_number ps) @ '': '' @ step_name ps @
                             ''. Reason: '' @ ''redo draft'',
                   is_read = False\<rparr>])
   \<and> map (\<lambda>p. (p_id p, p_status p, current_step_number p, updated_at p))
         (projects (committed_state ex_pair2
            (snd (send_back_step 3 1 (Some \<lparr>b_comments = Some ''redo draft''\<rparr>) 30 ex_pair2)))) =
       [(1, P_In_Progress, Some 5, 30), (2, P_In_Progress, Some 4, 11)]
   \<and> map (\<lambda>st. (s_id st, s_project_id st, step_number st, s_status st, completed_at st))
         (project_steps (committed_state ex_pair2
            (snd (send_back_step 3 1 (Some \<lparr>b_comments = Some ''redo draft''\<rparr>) 30 ex_pair2)))) =
       [(1, 1, 5, In_Progress, None), (2, 1, 3, Sent_Back, None), (3, 1, 1, Pending, None),
        (4, 2, 4, In_Progress, None), (5, 2, 2, Pending, None)]
   \<and> map (\<lambda>n. (n_user_id n, message n))
         (drop 3 (notifications (committed_state ex_pair2
            (snd (send_back_step 3 1 (Some \<lparr>b_comments = Some ''redo draft''\<rparr>) 30 ex_pair2))))) =
       [(2, ''Project sent back to you: P. Step 5: Draft. Reason: redo draft'')]
   \<and> map (\<lambda>a. (action a, a_user_id a, a_project_id a, a_step_id a, a_step_number a, comments a))
         (drop 3 (workflow_actions (committed_state ex_pair2
            (snd (send_back_step 3 1 (Some \<lparr>b_comments = Some ''redo draft''\<rparr>) 30 ex_pair2))))) =
       [(Send_Back, 3, 1, Some 2, Some 3, Some ''redo draft'')]"
proof -
  have a1: "step_ids_unique ex_pair2" by code_simp
  have a2: "get_project_row ex_pair2 1 = Some (ex_project P_In_Progress (Some 3) 20)"
    by code_simp
  have a3: "get_current_step ex_pair2 (ex_project P_In_Progress (Some 3) 20) =
              Some (ex_step 2 3 ''Review'' 3 In_Progress None)" by code_simp
  have a4: "assigned_user_id (ex_step 2 3 ''Review'' 3 In_Progress None) = 3" by code_simp
  have a5: "Some \<lparr>b_comments = Some ''redo draft''\<rparr> = Some \<lparr>b_comments = Some ''redo draft''\<rparr>"
    by simp
  have a6: "b_comments \<lparr>b_comments = Some ''redo draft''\<rparr> = Some ''redo draft''" by simp
  have a7: "''redo draft'' \<noteq> []" by simp
  have a8: "filter (\<lambda>st. s_project_id st = 1 \<and>
                    step_number (ex_step 2 3 ''Review'' 3 In_Progress None) < step_number st)
        (project_steps ex_pair2) \<noteq> []" by code_simp
  have c1: "map (\<lambda>p. (p_id p, p_status p, current_step_number p, updated_at p))
         (projects (committed_state ex_pair2
            (snd (send_back_step 3 1 (Some \<lparr>b_comments = Some ''redo draft''\<rparr>) 30 ex_pair2)))) =
       [(1, P_In_Progress, Some 5, 30), (2, P_In_Progress, Some 4, 11)]" by code_simp
  have c2: "map (\<lambda>st. (s_id st, s_project_id st, step_number st, s_status st, completed_at st))
         (project_steps (committed_state ex_pair2
            (snd (send_back_step 3 1 (Some \<lparr>b_comments = Some ''redo draft''\<rparr>) 30 ex_pair2)))) =
       [(1, 1, 5, In_Progress, None), (2, 1, 3, Sent_Back, None), (3, 1, 1, Pending, None),
        (4, 2, 4, In_Progress, None), (5, 2, 2, Pending, None)]" by code_simp
  have c3: "map (\<lambda>n. (n_user_id n, message n))
         (drop 3 (notifications (committed_state ex_pair2
            (snd (send_back_step 3 1 (Some \<lparr>b_comments = Some ''redo draft''\<rparr>) 30 ex_pair2))))) =
       [(2, ''Project sent back to you: P. Step 5: Draft. Reason: redo draft'')]" by code_simp
  have c4: "map (\<lambda>a. (action a, a_user_id a, a_project_id a, a_step_id a, a_step_number a,
                       comments a))
         (drop 3 (workflow_actions (committed_state ex_pair2
            (snd (send_back_step 3 1 (Some \<lparr>b_comments = Some ''redo draft''\<rparr>) 30 ex_pair2))))) =
       [(Send_Back, 3, 1, Some 2, Some 3, Some ''redo draft'')]" by code_simp
  note a = send_back_step_transition[OF a1 a2 a3 a4 a5 a6 a7 a8, of 30]
  show ?thesis by (intro conjI a1 a2 a3 a4 a5 a6 a7 a8 a c1 c2 c3 c4)
qed

section \<open>Rejected Forward and SendBack requests\<close>

text \<open>
  Claim C6. Let the project have an active current step (the row \<^verbatim>\<open>get_current_step\<close>
  returns). A user other than that step's assignee gets the 403 ``not assigned'' error from
  Forward and from SendBack. The assignee calling SendBack without a body, without a
  comment or with an empty comment gets the 400 ``comments are required'' error. The
  assignee calling SendBack with a comment while no step of the project has a greater
  number gets the 400 ``no previous step'' error. In each case nothing is committed, so the
  database after the request is the database before it.
\<close>

theorem forward_send_back_rejections:
  assumes p: "get_project_row db pid = Some p"
    and cs: "get_current_step db p = Some cs"
  shows "(uid \<noteq> assigned_user_id cs \<longrightarrow>
            forward_step uid pid data now db = (Inl Not_assigned_to_current_step, [])
          \<and> send_back_step uid pid data now db = (Inl Not_assigned_to_current_step, []))
       \<and> (uid = assigned_user_id cs
            \<and> (data = None \<or> (\<exists>b. data = Some b \<and> (b_comments b = None \<or> b_comments b = Some []))) \<longrightarrow>
            send_back_step uid pid data now db = (Inl Comments_required, []))
       \<and> (uid = assigned_user_id cs
            \<and> (\<exists>b c. data = Some b \<and> b_comments b = Some c \<and> c \<noteq> [])
            \<and> (\<forall>st \<in> set (steps_of db pid). step_number st \<le> step_number cs) \<longrightarrow>
            send_back_step uid pid data now db = (Inl No_previous_step, []))
       \<and> http_status Not_assigned_to_current_step = 403
       \<and> http_status Comments_required = 400
       \<and> http_status No_previous_step = 400
       \<and> committed_state db [] = db"
proof -
  have pid: "p_id p = pid" by (rule get_project_row_id[OF p])
  from get_current_step_Some[OF cs]
  have csn: "current_step_number p = Some (step_number cs)" and nz: "step_number cs \<noteq> 0"
    by auto
  have a: "uid \<noteq> assigned_user_id cs \<Longrightarrow>
            forward_step uid pid data now db = (Inl Not_assigned_to_current_step, [])
          \<and> send_back_step uid pid data now db = (Inl Not_assigned_to_current_step, [])"
    using p cs by (simp add: forward_step_def send_back_step_def)
  have b: "uid = assigned_user_id cs \<Longrightarrow>
       data = None \<or> (\<exists>b. data = Some b \<and> (b_comments b = None \<or> b_comments b = Some [])) \<Longrightarrow>
            send_back_step uid pid data now db = (Inl Comments_required, [])"
    using p cs by (auto simp add: send_back_step_def)
  have c: "uid = assigned_user_id cs \<Longrightarrow>
       \<exists>b c. data = Some b \<and> b_comments b = Some c \<and> c \<noteq> [] \<Longrightarrow>
       \<forall>st \<in> set (steps_of db pid). step_number st \<le> step_number cs \<Longrightarrow>
            send_back_step uid pid data now db = (Inl No_previous_step, [])"
  proof -
    assume u: "uid = assigned_user_id cs"
      and d: "\<exists>b c. data = Some b \<and> b_comments b = Some c \<and> c \<noteq> []"
      and mx: "\<forall>st \<in> set (steps_of db pid). step_number st \<le> step_number cs"
    have "filter (\<lambda>st. step_number cs < step_number st) (steps_of db (p_id p)) = []"
      using mx by (auto simp: filter_empty_conv pid)
    then have "get_previous_step db p = None"
      using get_previous_step_None[OF csn nz, of db] by simp
    then show ?thesis
      using p cs u d by (auto simp add: send_back_step_def)
  qed
  show ?thesis using a b c by simp
qed

theorem forward_send_back_rejections_witness:
  "get_project_row ex_db2 1 = Some (ex_project P_In_Progress (Some 2) 20)
   \<and> get_current_step ex_db2 (ex_project P_In_Progress (Some 2) 20) =
       Some (ex_step 2 2 ''Review'' 3 In_Progress None)
   \<and> forward_step 5 1 None 50 ex_db2 = (Inl Not_assigned_to_current_step, [])
   \<and> send_back_step 5 1 (ex_body ''no'') 50 ex_db2 = (Inl Not_assigned_to_current_step, [])
   \<and> send_back_step 3 1 None 50 ex_db2 = (Inl Comments_required, [])
   \<and> get_project_row ex_db1 1 = Some (ex_project P_In_Progress (Some 3) 10)
   \<and> get_current_step ex_db1 (ex_project P_In_Progress (Some 3) 10) =
       Some (ex_step 1 3 ''Draft'' 2 In_Progress None)
   \<and> send_back_step 2 1 (ex_body ''no'') 50 ex_db1 = (Inl No_previous_step, [])"
proof -
  have p2: "get_project_row ex_db2 1 = Some (ex_project P_In_Progress (Some 2) 20)" by code_simp
  have c2: "get_current_step ex_db2 (ex_project P_In_Progress (Some 2) 20) =
              Some (ex_step 2 2 ''Review'' 3 In_Progress None)" by code_simp
  have p1: "get_project_row ex_db1 1 = Some (ex_project P_In_Progress (Some 3) 10)" by code_simp
  have c1: "get_current_step ex_db1 (ex_project P_In_Progress (Some 3) 10) =
              Some (ex_step 1 3 ''Draft'' 2 In_Progress None)" by code_simp
  have u5: "(5::nat) \<noteq> assigned_user_id (ex_step 2 2 ''Review'' 3 In_Progress None)"
    by (simp add: ex_step_def)
  have u3: "(3::nat) = assigned_user_id (ex_step 2 2 ''Review'' 3 In_Progress None)"
    by (simp add: ex_step_def)
  have u2: "(2::nat) = assigned_user_id (ex_step 1 3 ''Draft'' 2 In_Progress None)"
    by (simp add: ex_step_def)
  have body: "\<exists>b c. ex_body ''no'' = Some b \<and> b_comments b = Some c \<and> c \<noteq> []"
    by (simp add: ex_body_def)
  have top: "\<forall>st \<in> set (steps_of ex_db1 1).
               step_number st \<le> step_number (ex_step 1 3 ''Draft'' 2 In_Progress None)"
    by code_simp
  from forward_send_back_rejections[OF p2 c2, of 5 None 50] u5
  have r1: "forward_step 5 1 None 50 ex_db2 = (Inl Not_assigned_to_current_step, [])"
    by blast
  from forward_send_back_rejections[OF p2 c2, of 5 "ex_body ''no''" 50] u5
  have r2: "send_back_step 5 1 (ex_body ''no'') 50 ex_db2 = (Inl Not_assigned_to_current_step, [])"
    by blast
  from forward_send_back_rejections[OF p2 c2, of 3 None 50] u3
  have r3: "send_back_step 3 1 None 50 ex_db2 = (Inl Comments_required, [])"
    by blast
  from forward_send_back_rejections[OF p1 c1, of 2 "ex_body ''no''" 50] u2 body top
  have r4: "send_back_step 2 1 (ex_body ''no'') 50 ex_db1 = (Inl No_previous_step, [])"
    by blast
  show ?thesis by (intro conjI p2 c2 r1 r2 r3 p1 c1 r4)
qed

section \<open>Step number 0\<close>

text \<open>
  Claim C10. If a project's current step number is 0, the current-step lookup returns
  nothing, as it does for a null number: whoever calls Forward or SendBack, with whatever
  body, gets the 400 ``no active step'' error and nothing is committed. So no sequence of
  Forward and SendBack requests by any users changes the database: the project is never
  completed and never sent back. The witness is the state reached by creating steps 1 and 0
  and forwarding step 1, where step 0 is In Progress.
\<close>

theorem step_zero_never_active:
  assumes p: "get_project_row db pid = Some p"
    and zero: "current_step_number p = Some 0"
  shows "forward_step uid pid data now db = (Inl No_active_step_found, [])
       \<and> send_back_step uid pid data now db = (Inl No_active_step_found, [])
       \<and> run_calls pid calls db = db"
proof -
  have f: "\<And>u d t. forward_step u pid d t db = (Inl No_active_step_found, [])"
    using p zero by (simp add: forward_step_def get_current_step_def)
  have b: "\<And>u d t. send_back_step u pid d t db = (Inl No_active_step_found, [])"
    using p zero by (simp add: send_back_step_def get_current_step_def)
  have one: "run_call pid c db = db" for c
    by (cases c) (simp_all add: f b)
  have "run_calls pid calls db = db"
    by (induction calls) (simp_all add: one)
  with f b show ?thesis by simp
qed

theorem step_zero_never_active_witness:
  "get_project_row ex_db_zero 1 = Some (ex_project P_In_Progress (Some 0) 20)
   \<and> current_step_number (ex_project P_In_Progress (Some 0) 20) = Some 0
   \<and> map s_status (filter (\<lambda>st. step_number st = 0) (steps_of ex_db_zero 1)) = [In_Progress]
   \<and> forward_step 3 1 None 30 ex_db_zero = (Inl No_active_step_found, [])
   \<and> send_back_step 3 1 (ex_body ''back'') 30 ex_db_zero = (Inl No_active_step_found, [])
   \<and> run_calls 1 [Forward_call 3 None 30, Send_back_call 3 (ex_body ''back'') 31,
                   Forward_call 1 None 32] ex_db_zero = ex_db_zero"
proof -
  have p: "get_project_row ex_db_zero 1 = Some (ex_project P_In_Progress (Some 0) 20)"
    by code_simp
  have z: "current_step_number (ex_project P_In_Progress (Some 0) 20) = Some 0"
    by (simp add: ex_project_def)
  have s: "map s_status (filter (\<lambda>st. step_number st = 0) (steps_of ex_db_zero 1)) =
             [In_Progress]"
    by code_simp
  from step_zero_never_active[OF p z, of 3 None 30]
  have r1: "forward_step 3 1 None 30 ex_db_zero = (Inl No_active_step_found, [])"
    by blast
  from step_zero_never_active[OF p z, of 3 "ex_body ''back''" 30]
  have r2: "send_back_step 3 1 (ex_body ''back'') 30 ex_db_zero = (Inl No_active_step_found, [])"
    by blast
  from step_zero_never_active[OF p z, of 3 None 30
         "[Forward_call 3 None 30, Send_back_call 3 (ex_body ''back'') 31,
           Forward_call 1 None 32]"]
  have r3: "run_calls 1 [Forward_call 3 None 30, Send_back_call 3 (ex_body ''back'') 31,
                         Forward_call 1 None 32] ex_db_zero = ex_db_zero"
    by blast
  show ?thesis by (intro conjI p z s r1 r2 r3)
qed

section \<open>EditProject with a new step list\<close>

text \<open>
  Claim C4, evaluated on the code. The owner edits the example project, which is at step 2,
  and supplies the three steps again. The request succeeds, the old steps are replaced and
  the current step number is reset to 3, the maximum; but all three new steps are Pending:
  \<^verbatim>\<open>edit_project\<close> never marks the maximum-numbered step In Progress, as
  \<^verbatim>\<open>create_project\<close> does.
\<close>

theorem edit_project_leaves_steps_pending:
  "let r = edit_project 1 1 ex_data 30 ex_db2; db' = committed_state ex_db2 (snd r)
   in \<not> isl (fst r)
    \<and> map current_step_number (projects db') = [Some 3]
    \<and> map (\<lambda>st. (step_number st, s_status st)) (steps_of db' 1) =
        [(3, Pending), (2, Pending), (1, Pending)]"
  by code_simp

section \<open>The workflow invariant\<close>

text \<open>
  Claim C1, evaluated on the code. Before the edit the example project satisfies the
  invariant. After the owner's edit with a step list the project has current step number 3
  and no step In Progress, so the invariant fails. Editing the completed project the same
  way leaves its status Completed with current step number 3.
\<close>

theorem edit_project_breaks_invariant:
  "let db' = committed_state ex_db2 (snd (edit_project 1 1 ex_data 30 ex_db2));
       p' = (ex_project P_In_Progress (Some 3) 30);
       db4 = run_calls 1 [Forward_call 4 None 40] ex_db3;
       db5 = committed_state db4 (snd (edit_project 1 1 ex_data 50 db4))
   in workflow_invariant ex_db2 (ex_project P_In_Progress (Some 2) 20)
    \<and> get_project_row db' 1 = Some p'
    \<and> \<not> workflow_invariant db' p'
    \<and> filter (\<lambda>st. s_status st = In_Progress) (steps_of db' 1) = []
    \<and> map (\<lambda>p. (p_status p, current_step_number p)) (projects db4) = [(P_Completed, None)]
    \<and> map (\<lambda>p. (p_status p, current_step_number p)) (projects db5) = [(P_Completed, Some 3)]"
  by code_simp

section \<open>Audit records\<close>

text \<open>
  Claim C8, evaluated on the code. The database is the one \<^verbatim>\<open>create_project\<close> commits
  first: the project and its steps are stored and its audit row is not written yet
  (\<open>ex_db_bare_committed\<close>). The owner deletes the project. The request succeeds with a
  single commit, project and steps are gone, and no committed snapshot holds any audit row:
  \<^verbatim>\<open>delete_project\<close> never calls \<^verbatim>\<open>log_action\<close>. On the example project that has
  its audit row the request does not succeed at all: it ends with status 500 and nothing is
  committed.
\<close>

theorem delete_project_logs_nothing:
  "let r = delete_project 1 1 ex_db_bare
   in \<not> isl (fst r) \<and> length (snd r) = 1
    \<and> projects (committed_state ex_db_bare (snd r)) = []
    \<and> project_steps (committed_state ex_db_bare (snd r)) = []
    \<and> list_all (\<lambda>s. workflow_actions s = []) (snd r)
    \<and> delete_project 1 1 ex_db1 = (Inl Internal_server_error, [])
    \<and> http_status Internal_server_error = 500"
  by code_simp

section \<open>Read access\<close>

text \<open>
  Claim C9, evaluated on the code. User 5 neither owns the example project nor is assigned
  to any of its steps. Reading the project's details is refused with 403, but reading its
  audit actions and its assets succeeds: those two routes check only that the project
  exists.
\<close>

theorem actions_and_assets_readable_by_anyone:
  "owner_id (ex_project P_In_Progress (Some 3) 10) \<noteq> 5
   \<and> filter (\<lambda>st. assigned_user_id st = 5) (steps_of ex_db1 1) = []
   \<and> get_project 5 1 (ex_db1\<lparr>project_assets := [ex_asset]\<rparr>) = Inl Access_denied
   \<and> get_project_actions 5 1 (ex_db1\<lparr>project_assets := [ex_asset]\<rparr>) =
       Inr [ex_action 1 1 Create None None ''Project created'' 10]
   \<and> get_project_assets 5 1 (ex_db1\<lparr>project_assets := [ex_asset]\<rparr>) = Inr [ex_asset]"
  by code_simp

section \<open>Validation in CreateProject\<close>

text \<open>
  Claim C5 as stated fails: a request whose two steps both carry the number 1 is accepted,
  and both steps are stored (the first of them In Progress). The code has no check on
  duplicate step numbers.
\<close>

theorem create_project_accepts_duplicates:
  "\<not> isl (fst (create_project 1 ex_data_dup 10 ex_db0))
   \<and> map (\<lambda>st. (step_number st, s_status st))
        (project_steps (committed_state ex_db0 (snd (create_project 1 ex_data_dup 10 ex_db0)))) =
      [(1, In_Progress), (1, Pending)]"
  by code_simp

text \<open>
  Claim C5, amended. A CreateProject request with an empty step list fails with status 400
  (with ``at least one step is required'' when name and description are present). A request
  with name and description whose steps all carry the four keys, one of them assigned to a
  user that does not exist, fails with the 404 ``user not found'' error for such a user.
  Whenever the request fails, nothing is committed: the database is unchanged, so no
  project, step, audit row or notification is created.
\<close>

theorem create_project_validation:
  "(d_steps data = Some [] \<longrightarrow>
      (\<exists>e. create_project cu data now db = (Inl e, []) \<and> http_status e = 400))
   \<and> (d_project_name data \<noteq> None \<and> d_description data \<noteq> None \<and> d_steps data = Some [] \<longrightarrow>
        create_project cu data now db = (Inl At_least_one_step_required, []))
   \<and> (d_project_name data \<noteq> None \<and> d_description data \<noteq> None \<and> d_steps data = Some sds
        \<and> list_all step_data_complete sds
        \<and> (\<exists>sd \<in> set sds. \<exists>u. sd_assigned_user_id sd = Some u \<and> get_user_row db u = None) \<longrightarrow>
        (\<exists>u. create_project cu data now db = (Inl (User_not_found u), [])
            \<and> get_user_row db u = None \<and> http_status (User_not_found u) = 404))
   \<and> (isl (fst (create_project cu data now db)) \<longrightarrow>
        snd (create_project cu data now db) = []
        \<and> committed_state db (snd (create_project cu data now db)) = db)"
proof -
  have a: "d_steps data = Some [] \<Longrightarrow>
      \<exists>e. create_project cu data now db = (Inl e, []) \<and> http_status e = 400"
    by (cases "d_project_name data"; cases "d_description data")
       (simp_all add: create_project_def)
  have b: "d_project_name data \<noteq> None \<and> d_description data \<noteq> None \<and> d_steps data = Some [] \<Longrightarrow>
        create_project cu data now db = (Inl At_least_one_step_required, [])"
    by (auto simp: create_project_def)
  have c: "\<exists>u. create_project cu data now db = (Inl (User_not_found u), [])
            \<and> get_user_row db u = None \<and> http_status (User_not_found u) = 404"
    if h: "d_project_name data \<noteq> None \<and> d_description data \<noteq> None \<and> d_steps data = Some sds
        \<and> list_all step_data_complete sds
        \<and> (\<exists>sd \<in> set sds. \<exists>u. sd_assigned_user_id sd = Some u \<and> get_user_row db u = None)"
  proof -
    from h obtain name descr where n: "d_project_name data = Some name"
      and d: "d_description data = Some descr" by auto
    from h have ne: "sds \<noteq> []" by auto
    from h validate_steps_not_found[of sds db] obtain u where
      v: "validate_steps db sds = Some (User_not_found u)" and nf: "get_user_row db u = None"
      by blast
    from h n d ne v have "create_project cu data now db = (Inl (User_not_found u), [])"
      by (simp add: create_project_def)
    with nf show ?thesis by simp
  qed
  have d: "isl (fst (create_project cu data now db)) \<Longrightarrow>
        snd (create_project cu data now db) = []
        \<and> committed_state db (snd (create_project cu data now db)) = db"
    by (cases "fst (create_project cu data now db)") (simp_all add: create_project_failure)
  from a b c d show ?thesis by blast
qed

theorem create_project_validation_witness:
  "d_steps ex_data_empty = Some []
   \<and> d_project_name ex_data_empty \<noteq> None \<and> d_description ex_data_empty \<noteq> None
   \<and> create_project 1 ex_data_empty 10 ex_db0 = (Inl At_least_one_step_required, [])
   \<and> d_project_name ex_data_no_user \<noteq> None \<and> d_description ex_data_no_user \<noteq> None
   \<and> d_steps ex_data_no_user = Some [ex_step_data 2 ''Two'' 2, ex_step_data 1 ''One'' 9]
   \<and> list_all step_data_complete [ex_step_data 2 ''Two'' 2, ex_step_data 1 ''One'' 9]
   \<and> (\<exists>sd \<in> set [ex_step_data 2 ''Two'' 2, ex_step_data 1 ''One'' 9].
         \<exists>u. sd_assigned_user_id sd = Some u \<and> get_user_row ex_db0 u = None)
   \<and> (\<exists>u. create_project 1 ex_data_no_user 10 ex_db0 = (Inl (User_not_found u), [])
          \<and> get_user_row ex_db0 u = None \<and> http_status (User_not_found u) = 404)
   \<and> isl (fst (create_project 1 ex_data_no_user 10 ex_db0))
   \<and> committed_state ex_db0 (snd (create_project 1 ex_data_no_user 10 ex_db0)) = ex_db0"
proof -
  have e1: "d_steps ex_data_empty = Some []" by (simp add: ex_data_empty_def)
  have e2: "d_project_name ex_data_empty \<noteq> None" by (simp add: ex_data_empty_def)
  have e3: "d_description ex_data_empty \<noteq> None" by (simp add: ex_data_empty_def)
  have n1: "d_project_name ex_data_no_user \<noteq> None" by (simp add: ex_data_no_user_def)
  have n2: "d_description ex_data_no_user \<noteq> None" by (simp add: ex_data_no_user_def)
  have n3: "d_steps ex_data_no_user = Some [ex_step_data 2 ''Two'' 2, ex_step_data 1 ''One'' 9]"
    by (simp add: ex_data_no_user_def)
  have n4: "list_all step_data_complete [ex_step_data 2 ''Two'' 2, ex_step_data 1 ''One'' 9]"
    by code_simp
  have "sd_assigned_user_id (ex_step_data 1 ''One'' 9) = Some 9 \<and> get_user_row ex_db0 9 = None"
    by code_simp
  then have n5: "\<exists>sd \<in> set [ex_step_data 2 ''Two'' 2, ex_step_data 1 ''One'' 9].
         \<exists>u. sd_assigned_user_id sd = Some u \<and> get_user_row ex_db0 u = None"
    by auto
  have n6: "isl (fst (create_project 1 ex_data_no_user 10 ex_db0))" by code_simp
  note A = create_project_validation[where data = ex_data_empty and cu = 1 and now = 10
                                       and db = ex_db0]
  note B = create_project_validation
             [where data = ex_data_no_user and cu = 1 and now = 10 and db = ex_db0
                and sds = "[ex_step_data 2 ''Two'' 2, ex_step_data 1 ''One'' 9]"]
  from A e1 e2 e3
  have r1: "create_project 1 ex_data_empty 10 ex_db0 = (Inl At_least_one_step_required, [])"
    by blast
  from B n1 n2 n3 n4 n5
  have r2: "\<exists>u. create_project 1 ex_data_no_user 10 ex_db0 = (Inl (User_not_found u), [])
          \<and> get_user_row ex_db0 u = None \<and> http_status (User_not_found u) = 404"
    by blast
  from B n6
  have r3: "committed_state ex_db0 (snd (create_project 1 ex_data_no_user 10 ex_db0)) = ex_db0"
    by blast
  show ?thesis by (intro conjI e1 e2 e3 r1 n1 n2 n3 n4 n5 r2 n6 r3)
qed

section \<open>Commits within one operation\<close>

text \<open>
  Claim C7 as stated fails: the snapshots committed by CreateProject and by Forward include
  states that are neither the database before the operation nor the database after it.
  \<^verbatim>\<open>log_action\<close> and \<^verbatim>\<open>create_notification\<close> each commit on their own.
\<close>

theorem operations_not_all_or_nothing:
  "\<not> all_or_nothing ex_db0 (snd (create_project 1 ex_data 10 ex_db0))
   \<and> \<not> all_or_nothing ex_db1 (snd (forward_step 2 1 None 20 ex_db1))"
  by code_simp

text \<open>
  Claim C7, amended. An operation that returns an error commits nothing; that includes
  DeleteProject on a project that has an audit row or an asset, which ends with status 500.
  A DeleteProject that succeeds commits exactly once. A successful Forward or SendBack commits three times:
  the first commit holds the entity changes together with the one new audit row, but not
  the notification, which the second commit adds. A successful CreateProject commits three
  times: first the project and its steps, without audit row or notification; then the audit
  row; then the notification. A successful EditProject commits twice: first the entity
  changes, then the audit row; it writes no notification.
\<close>

theorem commits_are_staged:
  "(isl (fst (create_project cu d now db)) \<longrightarrow> snd (create_project cu d now db) = [])
   \<and> (isl (fst (edit_project cu pid d now db)) \<longrightarrow> snd (edit_project cu pid d now db) = [])
   \<and> (isl (fst (delete_project cu pid db)) \<longrightarrow> snd (delete_project cu pid db) = [])
   \<and> (isl (fst (forward_step cu pid b now db)) \<longrightarrow> snd (forward_step cu pid b now db) = [])
   \<and> (isl (fst (send_back_step cu pid b now db)) \<longrightarrow> snd (send_back_step cu pid b now db) = [])
   \<and> (\<not> isl (fst (delete_project cu pid db)) \<longrightarrow> length (snd (delete_project cu pid db)) = 1)
   \<and> (\<not> isl (fst (forward_step cu pid b now db)) \<longrightarrow>
        (let log = snd (forward_step cu pid b now db); db' = committed_state db log
         in length log = 3
          \<and> projects (log ! 0) = projects db' \<and> project_steps (log ! 0) = project_steps db'
          \<and> workflow_actions (log ! 0) = workflow_actions db'
          \<and> notifications (log ! 0) = notifications db
          \<and> length (workflow_actions db') = Suc (length (workflow_actions db))
          \<and> length (notifications db') = Suc (length (notifications db))))
   \<and> (\<not> isl (fst (send_back_step cu pid b now db)) \<longrightarrow>
        (let log = snd (send_back_step cu pid b now db); db' = committed_state db log
         in length log = 3
          \<and> projects (log ! 0) = projects db' \<and> project_steps (log ! 0) = project_steps db'
          \<and> workflow_actions (log ! 0) = workflow_actions db'
          \<and> notifications (log ! 0) = notifications db
          \<and> length (workflow_actions db') = Suc (length (workflow_actions db))
          \<and> length (notifications db') = Suc (length (notifications db))))
   \<and> (\<not> isl (fst (create_project cu d now db)) \<longrightarrow>
        (let log = snd (create_project cu d now db); db' = committed_state db log
         in length log = 3
          \<and> projects (log ! 0) = projects db' \<and> project_steps (log ! 0) = project_steps db'
          \<and> workflow_actions (log ! 0) = workflow_actions db
          \<and> notifications (log ! 0) = notifications db
          \<and> workflow_actions (log ! 1) = workflow_actions db'
          \<and> notifications (log ! 1) = notifications db
          \<and> length (workflow_actions db') = Suc (length (workflow_actions db))
          \<and> length (notifications db') = Suc (length (notifications db))))
   \<and> (\<not> isl (fst (edit_project cu pid d now db)) \<longrightarrow>
        (let log = snd (edit_project cu pid d now db); db' = committed_state db log
         in length log = 2
          \<and> projects (log ! 0) = projects db' \<and> project_steps (log ! 0) = project_steps db'
          \<and> workflow_actions (log ! 0) = workflow_actions db
          \<and> length (workflow_actions db') = Suc (length (workflow_actions db))
          \<and> notifications db' = notifications db))"
proof (intro conjI impI)
  assume "isl (fst (create_project cu d now db))"
  then show "snd (create_project cu d now db) = []"
    by (cases "fst (create_project cu d now db)") (simp_all add: create_project_failure)
next
  assume "isl (fst (edit_project cu pid d now db))"
  then show "snd (edit_project cu pid d now db) = []"
    by (cases "fst (edit_project cu pid d now db)") (simp_all add: edit_project_failure)
next
  assume "isl (fst (delete_project cu pid db))"
  then show "snd (delete_project cu pid db) = []"
    by (cases "fst (delete_project cu pid db)") (simp_all add: delete_project_failure)
next
  assume "isl (fst (forward_step cu pid b now db))"
  then show "snd (forward_step cu pid b now db) = []"
    by (cases "fst (forward_step cu pid b now db)") (simp_all add: forward_step_failure)
next
  assume "isl (fst (send_back_step cu pid b now db))"
  then show "snd (send_back_step cu pid b now db) = []"
    by (cases "fst (send_back_step cu pid b now db)") (simp_all add: send_back_step_failure)
next
  assume "\<not> isl (fst (delete_project cu pid db))"
  then obtain v where "fst (delete_project cu pid db) = Inr v"
    by (cases "fst (delete_project cu pid db)") simp_all
  then show "length (snd (delete_project cu pid db)) = 1"
    by (rule delete_project_commits)
next
  assume "\<not> isl (fst (forward_step cu pid b now db))"
  then obtain v where "fst (forward_step cu pid b now db) = Inr v"
    by (cases "fst (forward_step cu pid b now db)") simp_all
  then show "let log = snd (forward_step cu pid b now db); db' = committed_state db log
         in length log = 3
          \<and> projects (log ! 0) = projects db' \<and> project_steps (log ! 0) = project_steps db'
          \<and> workflow_actions (log ! 0) = workflow_actions db'
          \<and> notifications (log ! 0) = notifications db
          \<and> length (workflow_actions db') = Suc (length (workflow_actions db))
          \<and> length (notifications db') = Suc (length (notifications db))"
    by (rule forward_step_commits)
next
  assume "\<not> isl (fst (send_back_step cu pid b now db))"
  then obtain v where "fst (send_back_step cu pid b now db) = Inr v"
    by (cases "fst (send_back_step cu pid b now db)") simp_all
  then show "let log = snd (send_back_step cu pid b now db); db' = committed_state db log
         in length log = 3
          \<and> projects (log ! 0) = projects db' \<and> project_steps (log ! 0) = project_steps db'
          \<and> workflow_actions (log ! 0) = workflow_actions db'
          \<and> notifications (log ! 0) = notifications db
          \<and> length (workflow_actions db') = Suc (length (workflow_actions db))
          \<and> length (notifications db') = Suc (length (notifications db))"
    by (rule send_back_step_commits)
next
  assume "\<not> isl (fst (create_project cu d now db))"
  then obtain v where "fst (create_project cu d now db) = Inr v"
    by (cases "fst (create_project cu d now db)") simp_all
  then show "let log = snd (create_project cu d now db); db' = committed_state db log
         in length log = 3
          \<and> projects (log ! 0) = projects db' \<and> project_steps (log ! 0) = project_steps db'
          \<and> workflow_actions (log ! 0) = workflow_actions db
          \<and> notifications (log ! 0) = notifications db
          \<and> workflow_actions (log ! 1) = workflow_actions db'
          \<and> notifications (log ! 1) = notifications db
          \<and> length (workflow_actions db') = Suc (length (workflow_actions db))
          \<and> length (notifications db') = Suc (length (notifications db))"
    by (rule create_project_commits)
next
  assume "\<not> isl (fst (edit_project cu pid d now db))"
  then obtain v where "fst (edit_project cu pid d now db) = Inr v"
    by (cases "fst (edit_project cu pid d now db)") simp_all
  then show "let log = snd (edit_project cu pid d now db); db' = committed_state db log
         in length log = 2
          \<and> projects (log ! 0) = projects db' \<and> project_steps (log ! 0) = project_steps db'
          \<and> workflow_actions (log ! 0) = workflow_actions db
          \<and> length (workflow_actions db') = Suc (length (workflow_actions db))
          \<and> notifications db' = notifications db"
    by (rule edit_project_commits)
qed

theorem commits_are_staged_witness:
  "isl (fst (create_project 5 ex_data_empty 60 ex_db2))
   \<and> snd (create_project 5 ex_data_empty 60 ex_db2) = []
   \<and> isl (fst (edit_project 5 1 ex_data_empty 60 ex_db2))
   \<and> snd (edit_project 5 1 ex_data_empty 60 ex_db2) = []
   \<and> isl (fst (delete_project 5 1 ex_db2))
   \<and> snd (delete_project 5 1 ex_db2) = []
   \<and> isl (fst (forward_step 5 1 (ex_body ''x'') 60 ex_db2))
   \<and> snd (forward_step 5 1 (ex_body ''x'') 60 ex_db2) = []
   \<and> isl (fst (send_back_step 5 1 (ex_body ''x'') 60 ex_db2))
   \<and> snd (send_back_step 5 1 (ex_body ''x'') 60 ex_db2) = []
   \<and> isl (fst (delete_project 1 1 ex_db2))
   \<and> snd (delete_project 1 1 ex_db2) = []
   \<and> \<not> isl (fst (delete_project 1 1 ex_db_bare))
   \<and> length (snd (delete_project 1 1 ex_db_bare)) = 1
   \<and> \<not> isl (fst (create_project 1 ex_data 60 ex_db2))
   \<and> length (snd (create_project 1 ex_data 60 ex_db2)) = 3
   \<and> workflow_actions (snd (create_project 1 ex_data 60 ex_db2) ! 0) = workflow_actions ex_db2
   \<and> \<not> isl (fst (edit_project 1 1 ex_data 60 ex_db2))
   \<and> length (snd (edit_project 1 1 ex_data 60 ex_db2)) = 2
   \<and> workflow_actions (snd (edit_project 1 1 ex_data 60 ex_db2) ! 0) = workflow_actions ex_db2
   \<and> \<not> isl (fst (forward_step 3 1 (ex_body ''x'') 60 ex_db2))
   \<and> length (snd (forward_step 3 1 (ex_body ''x'') 60 ex_db2)) = 3
   \<and> notifications (snd (forward_step 3 1 (ex_body ''x'') 60 ex_db2) ! 0) = notifications ex_db2
   \<and> \<not> isl (fst (send_back_step 3 1 (ex_body ''x'') 60 ex_db2))
   \<and> length (snd (send_back_step 3 1 (ex_body ''x'') 60 ex_db2)) = 3
   \<and> notifications (snd (send_back_step 3 1 (ex_body ''x'') 60 ex_db2) ! 0) =
       notifications ex_db2"
proof -
  have f1: "isl (fst (create_project 5 ex_data_empty 60 ex_db2))" by code_simp
  have f2: "isl (fst (edit_project 5 1 ex_data_empty 60 ex_db2))" by code_simp
  have f3: "isl (fst (delete_project 5 1 ex_db2))" by code_simp
  have f4: "isl (fst (forward_step 5 1 (ex_body ''x'') 60 ex_db2))" by code_simp
  have f5: "isl (fst (send_back_step 5 1 (ex_body ''x'') 60 ex_db2))" by code_simp
  have f6: "isl (fst (delete_project 1 1 ex_db2))" by code_simp
  have s1: "\<not> isl (fst (delete_project 1 1 ex_db_bare))" by code_simp
  have s2: "\<not> isl (fst (create_project 1 ex_data 60 ex_db2))" by code_simp
  have s3: "\<not> isl (fst (edit_project 1 1 ex_data 60 ex_db2))" by code_simp
  have s4: "\<not> isl (fst (forward_step 3 1 (ex_body ''x'') 60 ex_db2))" by code_simp
  have s5: "\<not> isl (fst (send_back_step 3 1 (ex_body ''x'') 60 ex_db2))" by code_simp
  note F = commits_are_staged[where cu = 5 and pid = 1 and d = ex_data_empty and now = 60
             and db = ex_db2 and b = "ex_body ''x''"]
  note O = commits_are_staged[where cu = 1 and pid = 1 and d = ex_data and now = 60
             and db = ex_db2 and b = "ex_body ''x''"]
  note A = commits_are_staged[where cu = 3 and pid = 1 and d = ex_data and now = 60
             and db = ex_db2 and b = "ex_body ''x''"]
  have r1: "snd (create_project 5 ex_data_empty 60 ex_db2) = []" using F f1 by blast
  have r2: "snd (edit_project 5 1 ex_data_empty 60 ex_db2) = []" using F f2 by blast
  have r3: "snd (delete_project 5 1 ex_db2) = []" using F f3 by blast
  have r4: "snd (forward_step 5 1 (ex_body ''x'') 60 ex_db2) = []" using F f4 by blast
  have r5: "snd (send_back_step 5 1 (ex_body ''x'') 60 ex_db2) = []" using F f5 by blast
  note D = commits_are_staged[where cu = 1 and pid = 1 and d = ex_data and now = 60
             and db = ex_db_bare and b = "ex_body ''x''"]
  have r6: "snd (delete_project 1 1 ex_db2) = []" using O f6 by blast
  have t1: "length (snd (delete_project 1 1 ex_db_bare)) = 1" using D s1 by blast
  from O s2 have "let log = snd (create_project 1 ex_data 60 ex_db2);
                      db' = committed_state ex_db2 log
         in length log = 3
          \<and> projects (log ! 0) = projects db' \<and> project_steps (log ! 0) = project_steps db'
          \<and> workflow_actions (log ! 0) = workflow_actions ex_db2
          \<and> notifications (log ! 0) = notifications ex_db2
          \<and> workflow_actions (log ! 1) = workflow_actions db'
          \<and> notifications (log ! 1) = notifications ex_db2
          \<and> length (workflow_actions db') = Suc (length (workflow_actions ex_db2))
          \<and> length (notifications db') = Suc (length (notifications ex_db2))"
    by blast
  then have t2: "length (snd (create_project 1 ex_data 60 ex_db2)) = 3"
    and t2': "workflow_actions (snd (create_project 1 ex_data 60 ex_db2) ! 0) =
                workflow_actions ex_db2"
    by (simp_all add: Let_def)
  from O s3 have "let log = snd (edit_project 1 1 ex_data 60 ex_db2);
                      db' = committed_state ex_db2 log
         in length log = 2
          \<and> projects (log ! 0) = projects db' \<and> project_steps (log ! 0) = project_steps db'
          \<and> workflow_actions (log ! 0) = workflow_actions ex_db2
          \<and> length (workflow_actions db') = Suc (length (workflow_actions ex_db2))
          \<and> notifications db' = notifications ex_db2"
    by blast
  then have t3: "length (snd (edit_project 1 1 ex_data 60 ex_db2)) = 2"
    and t3': "workflow_actions (snd (edit_project 1 1 ex_data 60 ex_db2) ! 0) =
                workflow_actions ex_db2"
    by (simp_all add: Let_def)
  from A s4 have "let log = snd (forward_step 3 1 (ex_body ''x'') 60 ex_db2);
                      db' = committed_state ex_db2 log
         in length log = 3
          \<and> projects (log ! 0) = projects db' \<and> project_steps (log ! 0) = project_steps db'
          \<and> workflow_actions (log ! 0) = workflow_actions db'
          \<and> notifications (log ! 0) = notifications ex_db2
          \<and> length (workflow_actions db') = Suc (length (workflow_actions ex_db2))
          \<and> length (notifications db') = Suc (length (notifications ex_db2))"
    by blast
  then have t4: "length (snd (forward_step 3 1 (ex_body ''x'') 60 ex_db2)) = 3"
    and t4': "notifications (snd (forward_step 3 1 (ex_body ''x'') 60 ex_db2) ! 0) =
                notifications ex_db2"
    by (simp_all add: Let_def)
  from A s5 have "let log = snd (send_back_step 3 1 (ex_body ''x'') 60 ex_db2);
                      db' = committed_state ex_db2 log
         in length log = 3
          \<and> projects (log ! 0) = projects db' \<and> project_steps (log ! 0) = project_steps db'
          \<and> workflow_actions (log ! 0) = workflow_actions db'
          \<and> notifications (log ! 0) = notifications ex_db2
          \<and> length (workflow_actions db') = Suc (length (workflow_actions ex_db2))
          \<and> length (notifications db') = Suc (length (notifications ex_db2))"
    by blast
  then have t5: "length (snd (send_back_step 3 1 (ex_body ''x'') 60 ex_db2)) = 3"
    and t5': "notifications (snd (send_back_step 3 1 (ex_body ''x'') 60 ex_db2) ! 0) =
                notifications ex_db2"
    by (simp_all add: Let_def)
  show ?thesis
    by (intro conjI f1 r1 f2 r2 f3 r3 f4 r4 f5 r5 f6 r6 s1 t1 s2 t2 t2' s3 t3 t3' s4 t4 t4' s5 t5 t5')
qed

end
